theory Spec2Isabelle
  imports Main
begin

section \<open>Python values shared by the four scripts\<close>

text \<open>
  The repository is four scripts over the mellea library. The library, pydantic, Jinja,
  the json module and the MCP framework are not part of it: wherever a script calls
  them, the model takes the called function as a parameter (a field of a record of
  library functions), and every call returns either the exception it raises
  (\<open>Inl\<close>) or its value (\<open>Inr\<close>). What the scripts themselves compute is
  written out. \<^verbatim>\<open>demo_2.py\<close> is a single \<^verbatim>\<open>instruct\<close> call whose answer is
  printed; it defines no function and is not modelled.
\<close>

datatype exn =
    AssertionError string
  | AttributeError
  | TypeError
  | IndexError
  | ValidationError
  | SchemaError
  | External string

text \<open>
  \<open>AssertionError\<close> (an \<^verbatim>\<open>assert\<close> of the scripts that fails, with its message),
  \<open>AttributeError\<close> (an attribute that the object does not have), \<open>TypeError\<close>
  (\<^verbatim>\<open>fn(**kwargs)\<close> where \<open>kwargs\<close> is not a dict) and \<open>IndexError\<close>
  (\<^verbatim>\<open>xs[0]\<close> on an empty list) are raised by the scripts' own statements;
  \<open>ValidationError\<close> is pydantic's, raised by \<^verbatim>\<open>model_validate_json\<close>;
  \<open>SchemaError\<close> stands for what \<^verbatim>\<open>pydantic.create_model\<close> raises when it
  cannot build a schema (an assertion inside pydantic); \<open>External\<close> is any
  exception that a library function or a tool raises, named by the library.
\<close>

subsection \<open>str of an integer, str.split with a separator\<close>

definition digit_char :: "nat \<Rightarrow> char" where
  "digit_char d = ''0123456789'' ! d"

function str_nat :: "nat \<Rightarrow> string" where
  "str_nat n = (if n < 10 then [digit_char n] else str_nat (n div 10) @ [digit_char (n mod 10)])"
  by pat_completeness auto
termination
  by (relation "measure (\<lambda>n. n)") auto

declare str_nat.simps [simp del]

text \<open>\<^verbatim>\<open>str(i)\<close> and \<^verbatim>\<open>f"{i}"\<close> for a Python int.\<close>

definition str_int :: "int \<Rightarrow> string" where
  "str_int i = (if i < 0 then CHR ''-'' # str_nat (nat (- i)) else str_nat (nat i))"

text \<open>
  \<^verbatim>\<open>x.split(sep)\<close> with a one-character separator: every occurrence of the
  separator ends a piece, so two separators in a row give an empty piece and the
  empty string gives one empty piece.
\<close>

fun split_sep :: "'a \<Rightarrow> 'a list \<Rightarrow> 'a list list" where
  "split_sep c [] = [[]]"
| "split_sep c (x # xs) =
     (if x = c then [] # split_sep c xs
      else (case split_sep c xs of [] \<Rightarrow> [[x]] | w # ws \<Rightarrow> (x # w) # ws))"

text \<open>\<^verbatim>\<open>sep.join(pieces)\<close>, the inverse the proofs compare \<open>split_sep\<close> with.\<close>

fun join_sep :: "'a \<Rightarrow> 'a list list \<Rightarrow> 'a list" where
  "join_sep c [] = []"
| "join_sep c [w] = w"
| "join_sep c (w # v # ws) = w @ c # join_sep c (v # ws)"

text \<open>\<^verbatim>\<open>str(v)\<close> for a value that is a string or \<^verbatim>\<open>None\<close>.\<close>

definition py_str :: "string option \<Rightarrow> string" where
  "py_str v = (case v of None \<Rightarrow> ''None'' | Some s \<Rightarrow> s)"

section \<open>demo\_mcp.py: the MCP tool and the MCP resource\<close>

text \<open>
  \<^verbatim>\<open>Requirement(description, validation_fn=simple_validate(f))\<close>: the text shown to
  the model and the check \<open>f\<close> that the library runs on a candidate output.
  \<open>check_only\<close> is set by \<^verbatim>\<open>check(...)\<close> and unset by \<^verbatim>\<open>req(...)\<close> and by the
  constructor.
\<close>

record requirement =
  req_description :: string
  req_validation_fn :: "(string \<Rightarrow> bool) option"
  check_only :: bool

text \<open>
  The calls a handler makes into the library, in order:
  \<^verbatim>\<open>MelleaSession(OllamaModelBackend(model_id, model_options={MAX_NEW_TOKENS: n}))\<close>
  and \<^verbatim>\<open>m.instruct(prompt, requirements=reqs, strategy=RejectionSamplingStrategy(loop_budget=b))\<close>.
\<close>

datatype lib_call =
    NewSession string int
  | Instruct string "requirement list" nat

text \<open>
  The library as \<^verbatim>\<open>demo_mcp.py\<close> uses it. \<open>'s\<close> is the session object and
  \<open>'r\<close> what \<^verbatim>\<open>instruct\<close> returns; \<open>is_thunk\<close> is
  \<^verbatim>\<open>isinstance(res, ModelOutputThunk)\<close> and \<open>thunk_value\<close> is \<^verbatim>\<open>res.value\<close>
  (a string or \<^verbatim>\<open>None\<close>).
\<close>

record ('s, 'r) mcp_library =
  new_session :: "string \<Rightarrow> int \<Rightarrow> exn + 's"
  instruct :: "'s \<Rightarrow> string \<Rightarrow> requirement list \<Rightarrow> nat \<Rightarrow> exn + 'r"
  is_thunk :: "'r \<Rightarrow> bool"
  thunk_value :: "'r \<Rightarrow> string option"

text \<open>
  The requirement built in \<^verbatim>\<open>write_a_poem\<close>:
  \<^verbatim>\<open>Requirement(f"Use only {word_limit} words.",
       validation_fn=simple_validate(lambda x: len(x.split(" ")) < word_limit))\<close>.
\<close>

definition wl_req :: "int \<Rightarrow> requirement" where
  "wl_req word_limit =
     \<lparr> req_description = ''Use only '' @ str_int word_limit @ '' words.'',
       req_validation_fn = Some (\<lambda>x. int (length (split_sep CHR '' '' x)) < word_limit),
       check_only = False \<rparr>"

text \<open>
  A handler of the MCP server is modelled by the library calls it makes, in order, and
  by its outcome. \<^verbatim>\<open>write_a_poem\<close> has no \<^verbatim>\<open>try\<close>: an exception of the library
  ends it with that exception.
\<close>

definition write_a_poem :: "('s, 'r) mcp_library \<Rightarrow> int \<Rightarrow> lib_call list \<times> (exn + string)" where
  "write_a_poem L word_limit =
     (case new_session L ''granite4:micro'' (word_limit + 10) of
        Inl e \<Rightarrow> ([NewSession ''granite4:micro'' (word_limit + 10)], Inl e)
      | Inr m \<Rightarrow>
          (case instruct L m ''Write a poem'' [wl_req word_limit] 2 of
             Inl e \<Rightarrow>
               ([NewSession ''granite4:micro'' (word_limit + 10),
                 Instruct ''Write a poem'' [wl_req word_limit] 2], Inl e)
           | Inr res \<Rightarrow>
               ([NewSession ''granite4:micro'' (word_limit + 10),
                 Instruct ''Write a poem'' [wl_req word_limit] 2],
                if is_thunk L res then Inr (py_str (thunk_value L res))
                else Inl (AssertionError []))))"

text \<open>\<^verbatim>\<open>get_greeting(name)\<close> returns \<^verbatim>\<open>f"Hello, {name}!"\<close> and calls nothing.\<close>

definition get_greeting :: "string \<Rightarrow> lib_call list \<times> (exn + string)" where
  "get_greeting nm = ([], Inr (concat [''Hello, '', nm, ''!'']))"

text \<open>
  The two endpoints registered with the server: the tool takes an integer, the
  resource \<^verbatim>\<open>greeting://{name}\<close> takes the name from the URI.
\<close>

datatype mcp_request = CallTool int | ReadResource string

definition mcp_handle :: "('s, 'r) mcp_library \<Rightarrow> mcp_request \<Rightarrow> lib_call list \<times> (exn + string)" where
  "mcp_handle L rq =
     (case rq of CallTool word_limit \<Rightarrow> write_a_poem L word_limit
               | ReadResource nm \<Rightarrow> get_greeting nm)"

text \<open>
  A library for the examples: the session is the token budget it was created with,
  and \<^verbatim>\<open>instruct\<close> answers with a fixed four-word poem.
\<close>

definition poem_lib :: "(int, string) mcp_library" where
  "poem_lib =
     \<lparr> new_session = (\<lambda>model_id max_new_tokens. Inr max_new_tokens),
       instruct = (\<lambda>m prompt reqs budget. Inr ''roses are red too''),
       is_thunk = (\<lambda>res. True),
       thunk_value = (\<lambda>res. Some res) \<rparr>"

section \<open>demo.py: write\_email\<close>

text \<open>
  What \<^verbatim>\<open>m.instruct(..., return_sampling_results=True)\<close> returns, the library's
  \<^verbatim>\<open>SamplingResult\<close>: the success flag, the chosen result and every sampled
  candidate, which the library keeps in the attribute \<^verbatim>\<open>sample_generations\<close>.
\<close>

record 't sampling_result =
  success :: bool
  result :: 't
  sample_generations :: "'t list"

text \<open>
  \<^verbatim>\<open>email_candidate.sampling_results\<close>: a \<^verbatim>\<open>SamplingResult\<close> has no attribute of
  this name, so reading it raises \<open>AttributeError\<close> whatever the object holds.
\<close>

definition sampling_results :: "'t sampling_result \<Rightarrow> exn + 't list" where
  "sampling_results email_candidate = Inl AttributeError"

text \<open>
  The library as \<^verbatim>\<open>demo.py\<close> uses it: \<open>instruct_sampling\<close> is
  \<^verbatim>\<open>m.instruct(template, requirements=..., strategy=RejectionSamplingStrategy(loop_budget=b),
  user_variables=..., return_sampling_results=True)\<close>, \<open>str_thunk\<close> is \<^verbatim>\<open>str(t)\<close>
  of a candidate, \<open>sampled_value\<close> its \<^verbatim>\<open>.value\<close> (a string or \<^verbatim>\<open>None\<close>) and
  \<open>islower\<close> is \<^verbatim>\<open>str.islower\<close>.
\<close>

record ('s, 't) email_library =
  instruct_sampling ::
    "'s \<Rightarrow> string \<Rightarrow> requirement list \<Rightarrow> nat \<Rightarrow> (string \<times> string) list \<Rightarrow> exn + 't sampling_result"
  str_thunk :: "'t \<Rightarrow> string"
  sampled_value :: "'t \<Rightarrow> string option"
  islower :: "string \<Rightarrow> bool"

text \<open>The module's \<^verbatim>\<open>requirements\<close> list: two \<^verbatim>\<open>req\<close> and one \<^verbatim>\<open>check\<close>.\<close>

definition requirements :: "('s, 't) email_library \<Rightarrow> requirement list" where
  "requirements L =
     [ \<lparr> req_description = ''The email should have a salutation'',
         req_validation_fn = None, check_only = False \<rparr>,
       \<lparr> req_description = ''Use only lower-case letters'',
         req_validation_fn = Some (\<lambda>s. islower L s), check_only = False \<rparr>,
       \<lparr> req_description = ''The email should not mention the word 'regards'' @ [CHR 0x27],
         req_validation_fn = None, check_only = True \<rparr> ]"

definition fallback_message :: string where
  "fallback_message = ''Expect sub-par output due to failure to meet requirements.''"

text \<open>
  \<^verbatim>\<open>write_email(m, names, notes)\<close>: the outcome and the lines it prints. The result
  is \<open>Some s\<close> for a string and \<open>None\<close> for Python's \<^verbatim>\<open>None\<close>, which the \<^verbatim>\<open>.value\<close>
  of a candidate can be. The line is printed before \<^verbatim>\<open>sampling_results\<close> is
  read, so it is printed also when that raises.
\<close>

definition write_email ::
  "('s, 't) email_library \<Rightarrow> 's \<Rightarrow> string \<Rightarrow> string \<Rightarrow> (exn + string option) \<times> string list" where
  "write_email L m names notes =
     (case instruct_sampling L m
             ''Write an email to {{name}} using the notes following: {{notes}}.''
             (requirements L) 5 [(''name'', names), (''notes'', notes)] of
        Inl e \<Rightarrow> (Inl e, [])
      | Inr email_candidate \<Rightarrow>
          if success email_candidate
          then (Inr (Some (str_thunk L (result email_candidate))), [])
          else (case sampling_results email_candidate of
                  Inl e \<Rightarrow> (Inl e, [fallback_message])
                | Inr [] \<Rightarrow> (Inl IndexError, [fallback_message])
                | Inr (first # others) \<Rightarrow> (Inr (sampled_value L first), [fallback_message])))"

text \<open>
  A library for the examples. The session is a number: session 0 meets the
  requirements, session 1 fails them after two candidates, session 2 cannot reach
  the model.
\<close>

definition email_lib :: "(nat, string) email_library" where
  "email_lib =
     \<lparr> instruct_sampling = (\<lambda>m template reqs budget vars.
         if m = 0 then Inr \<lparr> success = True, result = ''dear arush'',
                             sample_generations = [''dear arush''] \<rparr>
         else if m = 1 then Inr \<lparr> success = False, result = ''Regards'',
                                  sample_generations = [''Hi Arush'', ''Regards''] \<rparr>
         else Inl (External ''ConnectionError'')),
       str_thunk = (\<lambda>t. t),
       sampled_value = (\<lambda>t. Some t),
       islower = (\<lambda>s. (\<exists>c \<in> set s. c \<in> set ''abcdefghijklmnopqrstuvwxyz'')
                  \<and> (\<forall>c \<in> set s. c \<notin> set ''ABCDEFGHIJKLMNOPQRSTUVWXYZ'')) \<rparr>"

section \<open>demo\_agent.py: the ReACT loop\<close>

subsection \<open>Tools and the toolbox\<close>

text \<open>
  A JSON value as \<^verbatim>\<open>json.loads\<close> and pydantic's parser return it. A number keeps
  its text; an object is the list of its items, each key once, as a Python dict has
  them.
\<close>

datatype json =
    JNull
  | JBool bool
  | JNum string
  | JStr string
  | JArr "json list"
  | JObj "(string \<times> json) list"

text \<open>
  A Python callable used as a tool. \<open>fn_name\<close> is \<^verbatim>\<open>fn.__name__\<close>, \<open>None\<close> for
  a callable that has no such attribute (a \<^verbatim>\<open>functools.partial\<close> object);
  \<open>fn_signature\<close> is what \<^verbatim>\<open>inspect.signature(fn)\<close> gives, the parameter
  names or the exception it raises for a callable without a signature; \<open>fn_call\<close> is
  \<^verbatim>\<open>fn(**kwargs)\<close> for a dict \<open>kwargs\<close> (a \<open>TypeError\<close> when the keys are not the
  parameters, or whatever the body raises).
\<close>

record pyfn =
  fn_name :: "string option"
  fn_signature :: "exn + string list"
  fn_call :: "(string \<times> json) list \<Rightarrow> exn + string"

record react_tool =
  fn :: pyfn
  name :: "string option"
  description :: "string option"

text \<open>
  \<^verbatim>\<open>get_name\<close>: the name when one was given, else \<^verbatim>\<open>self.fn.__name__\<close>, which
  raises for a callable without that attribute.
\<close>

definition get_name :: "react_tool \<Rightarrow> exn + string" where
  "get_name tool =
     (case name tool of
        None \<Rightarrow> (case fn_name (fn tool) of None \<Rightarrow> Inl AttributeError | Some n \<Rightarrow> Inr n)
      | Some n \<Rightarrow> Inr n)"

record react_toolbox =
  tools :: "react_tool list"

text \<open>
  \<^verbatim>\<open>[tool.get_name() for tool in self.tools]\<close>: the names in order; the first
  \<^verbatim>\<open>get_name()\<close> that raises ends the comprehension.
\<close>

fun names_of :: "react_tool list \<Rightarrow> exn + string list" where
  "names_of [] = Inr []"
| "names_of (tool # rest) =
     (case get_name tool of
        Inl e \<Rightarrow> Inl e
      | Inr n \<Rightarrow> (case names_of rest of Inl e \<Rightarrow> Inl e | Inr ns \<Rightarrow> Inr (n # ns)))"

definition tool_names :: "react_toolbox \<Rightarrow> exn + string list" where
  "tool_names tb = names_of (tools tb)"

text \<open>
  \<^verbatim>\<open>get_tool_from_name\<close>: the loop over the tools returns the first whose
  \<^verbatim>\<open>get_name()\<close> is the name, and \<^verbatim>\<open>None\<close> after the last; a \<^verbatim>\<open>get_name()\<close>
  that raises before a tool is found ends the loop.
\<close>

fun first_named :: "string \<Rightarrow> react_tool list \<Rightarrow> exn + react_tool option" where
  "first_named nm [] = Inr None"
| "first_named nm (tool # rest) =
     (case get_name tool of
        Inl e \<Rightarrow> Inl e
      | Inr n \<Rightarrow> if n = nm then Inr (Some tool) else first_named nm rest)"

definition get_tool_from_name :: "react_toolbox \<Rightarrow> string \<Rightarrow> exn + react_tool option" where
  "get_tool_from_name tb nm = first_named nm (tools tb)"

subsection \<open>Schemas and their validation\<close>

text \<open>
  A pydantic model class made by \<^verbatim>\<open>pydantic.create_model(name, **fields)\<close> or
  written as a class: its name and its required fields. The field types the script
  uses are \<^verbatim>\<open>str\<close>, \<^verbatim>\<open>Literal[*names]\<close> and \<^verbatim>\<open>bool\<close>.
\<close>

datatype field_type = StrField | LiteralField "string list" | BoolField

datatype format = NoFormat | Schema string "(string \<times> field_type) list"

text \<open>\<^verbatim>\<open>Message(role=..., content=...)\<close>.\<close>

record message =
  msg_role :: string
  msg_content :: string

text \<open>
  The library, pydantic's parser, Jinja and the json module as \<^verbatim>\<open>demo_agent.py\<close>
  uses them. \<open>'s\<close> is the session \<open>m\<close> with its context \<open>m.ctx\<close>.
  \<^item> \<open>view_for_generation\<close>: \<^verbatim>\<open>m.ctx.view_for_generation()\<close>, a list or \<^verbatim>\<open>None\<close>;
  \<^item> \<open>ctx_add\<close>: the session after \<^verbatim>\<open>m.ctx = m.ctx.add(msg)\<close>;
  \<^item> \<open>chat\<close>: \<^verbatim>\<open>m.chat(prompt, format=fmt).content\<close>, or the exception raised, and
    the session after the call;
  \<^item> \<open>render\<close>: \<^verbatim>\<open>react_system_template.render({"today": datetime.date.today(),
    "tools": tools})\<close>; the template calls \<^verbatim>\<open>get_name()\<close> and
    \<^verbatim>\<open>get_description()\<close> of every tool, and an exception of theirs ends the
    rendering;
  \<^item> \<open>json_loads\<close>: \<^verbatim>\<open>json.loads\<close>; \<open>json_dumps\<close>: \<^verbatim>\<open>json.dumps(v, indent=2)\<close>;
  \<^item> \<open>parse_json\<close>: the JSON parser inside \<^verbatim>\<open>model_validate_json\<close>, \<open>None\<close>
    for text that is not JSON;
  \<^item> \<open>validate_bool\<close>: the values pydantic accepts for a \<^verbatim>\<open>bool\<close> field, with
    the boolean each stands for;
  \<^item> \<open>capitalize\<close>: \<^verbatim>\<open>str.capitalize\<close>.
\<close>

record 's library =
  view_for_generation :: "'s \<Rightarrow> message list option"
  ctx_add :: "'s \<Rightarrow> message \<Rightarrow> 's"
  chat :: "'s \<Rightarrow> string \<Rightarrow> format \<Rightarrow> (exn + string) \<times> 's"
  render :: "react_tool list \<Rightarrow> exn + string"
  json_loads :: "string \<Rightarrow> exn + json"
  json_dumps :: "json \<Rightarrow> string"
  parse_json :: "string \<Rightarrow> json option"
  validate_bool :: "json \<Rightarrow> bool option"
  capitalize :: "string \<Rightarrow> string"

text \<open>
  \<^verbatim>\<open>args_schema\<close>: one required \<^verbatim>\<open>str\<close> field for each parameter of the tool's
  function, in a model named after the function. The signature is read first, the
  function's \<^verbatim>\<open>__name__\<close> when the model is made; either can raise.
\<close>

definition args_schema :: "'s library \<Rightarrow> react_tool \<Rightarrow> exn + format" where
  "args_schema L tool =
     (case fn_signature (fn tool) of
        Inl e \<Rightarrow> Inl e
      | Inr params \<Rightarrow>
          (case fn_name (fn tool) of
             None \<Rightarrow> Inl AttributeError
           | Some n \<Rightarrow>
               Inr (Schema (capitalize L n @ ''ToolSchema'')
                           (map (\<lambda>param_name. (param_name, StrField)) params))))"

text \<open>
  \<^verbatim>\<open>tool_name_schema\<close>: one field \<^verbatim>\<open>tool\<close> of type \<^verbatim>\<open>Literal[*names]\<close>. The
  names are computed first. pydantic builds no schema for a \<^verbatim>\<open>Literal\<close> without
  values: for an empty toolbox \<^verbatim>\<open>create_model\<close> raises.
\<close>

definition tool_name_schema :: "react_toolbox \<Rightarrow> exn + format" where
  "tool_name_schema tb =
     (case tool_names tb of
        Inl e \<Rightarrow> Inl e
      | Inr names \<Rightarrow>
          if names = [] then Inl SchemaError
          else Inr (Schema ''ToolSelectionSchema'' [(''tool'', LiteralField names)]))"

definition is_done_model :: format where
  "is_done_model = Schema ''IsDoneModel'' [(''is_done'', BoolField)]"

text \<open>
  pydantic's validation of one field: a \<^verbatim>\<open>str\<close> field takes a JSON string, a
  \<^verbatim>\<open>Literal\<close> field takes a JSON string that is one of its values, a \<^verbatim>\<open>bool\<close>
  field takes what \<open>validate_bool\<close> accepts.
\<close>

fun validate_field :: "'s library \<Rightarrow> field_type \<Rightarrow> json \<Rightarrow> json option" where
  "validate_field L StrField (JStr s) = Some (JStr s)"
| "validate_field L (LiteralField allowed) (JStr s) =
     (if s \<in> set allowed then Some (JStr s) else None)"
| "validate_field L BoolField v = map_option JBool (validate_bool L v)"
| "validate_field L ty v = None"

text \<open>Every field of the model is required; keys that are not fields are ignored.\<close>

fun validate_fields ::
  "'s library \<Rightarrow> (string \<times> field_type) list \<Rightarrow> (string \<times> json) list \<Rightarrow> (string \<times> json) list option" where
  "validate_fields L [] kvs = Some []"
| "validate_fields L ((k, ty) # flds) kvs =
     (case map_of kvs k of
        None \<Rightarrow> None
      | Some v \<Rightarrow>
          (case validate_field L ty v of
             None \<Rightarrow> None
           | Some v' \<Rightarrow>
               (case validate_fields L flds kvs of
                  None \<Rightarrow> None
                | Some validated \<Rightarrow> Some ((k, v') # validated))))"

text \<open>
  \<^verbatim>\<open>schema.model_validate_json(content)\<close>: the instance, as the list of its
  attributes, or a \<open>ValidationError\<close>.
\<close>

definition model_validate_json ::
  "'s library \<Rightarrow> format \<Rightarrow> string \<Rightarrow> exn + (string \<times> json) list" where
  "model_validate_json L schema content =
     (case schema of
        NoFormat \<Rightarrow> Inl AttributeError
      | Schema model_name model_fields \<Rightarrow>
          (case parse_json L content of
             Some (JObj kvs) \<Rightarrow>
               (case validate_fields L model_fields kvs of
                  None \<Rightarrow> Inl ValidationError
                | Some validated \<Rightarrow> Inr validated)
           | _ \<Rightarrow> Inl ValidationError))"

text \<open>
  \<^verbatim>\<open>get_tool_from_schema\<close>: build the schema, validate the content, look the
  validated \<^verbatim>\<open>tool\<close> attribute up by name. The result is \<open>Inr None\<close> when
  \<^verbatim>\<open>get_tool_from_name\<close> returns \<^verbatim>\<open>None\<close>; a value of the attribute that is
  not a string equals no name.
\<close>

definition get_tool_from_schema ::
  "'s library \<Rightarrow> react_toolbox \<Rightarrow> string \<Rightarrow> exn + react_tool option" where
  "get_tool_from_schema L tb content =
     (case tool_name_schema tb of
        Inl e \<Rightarrow> Inl e
      | Inr schema \<Rightarrow>
          (case model_validate_json L schema content of
             Inl e \<Rightarrow> Inl e
           | Inr validated \<Rightarrow>
               (case map_of validated ''tool'' of
                  None \<Rightarrow> Inl AttributeError
                | Some (JStr nm) \<Rightarrow> get_tool_from_name tb nm
                | Some other \<Rightarrow> Inr None)))"

text \<open>
  \<^verbatim>\<open>call_tool\<close>: \<^verbatim>\<open>fn(**json.loads(kwargs_json))\<close>; a value that is not a dict
  cannot follow \<^verbatim>\<open>**\<close>.
\<close>

definition call_tool :: "'s library \<Rightarrow> react_tool \<Rightarrow> string \<Rightarrow> exn + string" where
  "call_tool L tool kwargs_json =
     (case json_loads L kwargs_json of
        Inl e \<Rightarrow> Inl e
      | Inr (JObj kwargs) \<Rightarrow> fn_call (fn tool) kwargs
      | Inr other \<Rightarrow> Inl TypeError)"

text \<open>\<^verbatim>\<open>IsDoneModel.model_validate_json(content).is_done\<close>.\<close>

definition is_done_of :: "'s library \<Rightarrow> string \<Rightarrow> exn + bool" where
  "is_done_of L content =
     (case model_validate_json L is_done_model content of
        Inl e \<Rightarrow> Inl e
      | Inr validated \<Rightarrow>
          (case map_of validated ''is_done'' of
             Some (JBool b) \<Rightarrow> Inr b
           | _ \<Rightarrow> Inl AttributeError))"

subsection \<open>What a run does, in order\<close>

text \<open>
  Every call that \<^verbatim>\<open>react\<close> makes outside itself is recorded with its outcome, in
  the order of the calls, together with the lines it prints.
\<close>

datatype event =
    EView "message list option"
  | ERender "exn + string"
  | ECtxAdd message
  | EChat string format "exn + string"
  | ECallTool react_tool string "exn + string"
  | EPrint string

record 's world =
  session :: 's
  trace :: "event list"

type_synonym ('s, 'a) io = "'s world \<Rightarrow> (exn + 'a) \<times> 's world"

definition emit :: "event \<Rightarrow> 's world \<Rightarrow> 's world" where
  "emit ev w = w\<lparr>trace := trace w @ [ev]\<rparr>"

text \<open>Statements in sequence: an exception ends the sequence.\<close>

definition io_bind :: "('s, 'a) io \<Rightarrow> ('a \<Rightarrow> ('s, 'b) io) \<Rightarrow> ('s, 'b) io" where
  "io_bind stmt rest =
     (\<lambda>w. case stmt w of (Inl e, w') \<Rightarrow> (Inl e, w') | (Inr a, w') \<Rightarrow> rest a w')"

definition io_then :: "('s, unit) io \<Rightarrow> ('s, 'b) io \<Rightarrow> ('s, 'b) io" where
  "io_then stmt rest = io_bind stmt (\<lambda>u. rest)"

definition io_lift :: "exn + 'a \<Rightarrow> ('s, 'a) io" where
  "io_lift r = (\<lambda>w. (r, w))"

definition io_print :: "string \<Rightarrow> ('s, unit) io" where
  "io_print line = (\<lambda>w. (Inr (), emit (EPrint line) w))"

definition io_view :: "'s library \<Rightarrow> ('s, message list option) io" where
  "io_view L = (\<lambda>w. let v = view_for_generation L (session w) in (Inr v, emit (EView v) w))"

definition io_render :: "'s library \<Rightarrow> react_tool list \<Rightarrow> ('s, string) io" where
  "io_render L ts = (\<lambda>w. let r = render L ts in (r, emit (ERender r) w))"

definition io_ctx_add :: "'s library \<Rightarrow> message \<Rightarrow> ('s, unit) io" where
  "io_ctx_add L msg =
     (\<lambda>w. (Inr (), emit (ECtxAdd msg) (w\<lparr>session := ctx_add L (session w) msg\<rparr>)))"

definition io_chat :: "'s library \<Rightarrow> string \<Rightarrow> format \<Rightarrow> ('s, string) io" where
  "io_chat L prompt fmt =
     (\<lambda>w. case chat L (session w) prompt fmt of
            (r, s') \<Rightarrow> (r, emit (EChat prompt fmt r) (w\<lparr>session := s'\<rparr>)))"

definition io_call_tool :: "'s library \<Rightarrow> react_tool \<Rightarrow> string \<Rightarrow> ('s, string) io" where
  "io_call_tool L tool kwargs_json =
     (\<lambda>w. let r = call_tool L tool kwargs_json in (r, emit (ECallTool tool kwargs_json r) w))"

subsection \<open>The prompts\<close>

definition thought_prompt :: string where
  "thought_prompt = ''What should you do next? Respond with a description of the next piece of information you need or the next action you need to take.''"

definition action_prompt :: string where
  "action_prompt = ''Choose your next action. Respond with a nothing other than a tool name.''"

definition args_prompt :: string where
  "args_prompt = ''Choose arguments for the tool. Respond using JSON and include only the tool arguments in your response.''"

definition done_prompt :: "string \<Rightarrow> string" where
  "done_prompt goal =
     ''Do you have the FINAL ANSWER to the user's original query ('' @ goal @ '')? ''
     @ ''Respond with Yes ONLY if you have the specific information requested (e.g., the actual temperature). ''
     @ ''If you still need to run a tool, respond with No.''"

definition final_prompt :: "string \<Rightarrow> string" where
  "final_prompt goal = ''Please provide your final answer to the original query ('' @ goal @ '').''"

subsection \<open>One turn, the loop, and react\<close>

text \<open>
  The body of the \<^verbatim>\<open>while\<close> loop up to the done check; its value is the parsed
  \<^verbatim>\<open>is_done\<close> flag. \<^verbatim>\<open>selected_tool.get_name()\<close> on \<^verbatim>\<open>None\<close> is an
  \<open>AttributeError\<close>. The arguments of a call are evaluated before the call:
  \<^verbatim>\<open>tool_name_schema()\<close> and \<^verbatim>\<open>args_schema()\<close> before their chat requests,
  \<^verbatim>\<open>get_name()\<close> before its \<^verbatim>\<open>print\<close>.
\<close>

definition turn :: "'s library \<Rightarrow> string \<Rightarrow> react_toolbox \<Rightarrow> nat \<Rightarrow> ('s, bool) io" where
  "turn L goal tb turn_num =
     io_then (io_print (''## ReACT TURN NUMBER '' @ str_nat turn_num))
    (io_then (io_print ''### Thought'')
    (io_bind (io_chat L thought_prompt NoFormat) (\<lambda>thought.
     io_then (io_print thought)
    (io_then (io_print ''### Action'')
    (io_bind (io_lift (tool_name_schema tb)) (\<lambda>schema.
     io_bind (io_chat L action_prompt schema) (\<lambda>act.
     io_bind (io_lift (get_tool_from_schema L tb act)) (\<lambda>selected.
     io_bind (io_lift (case selected of None \<Rightarrow> Inl AttributeError | Some t \<Rightarrow> Inr t))
       (\<lambda>selected_tool.
     io_bind (io_lift (get_name selected_tool)) (\<lambda>selected_name.
     io_then (io_print selected_name)
    (io_then (io_print ''### Arguments for action'')
    (io_bind (io_lift (args_schema L selected_tool)) (\<lambda>args_format.
     io_bind (io_chat L args_prompt args_format) (\<lambda>act_args.
     io_bind (io_lift (json_loads L act_args)) (\<lambda>parsed.
     io_then (io_print (''```json\<newline>'' @ json_dumps L parsed @ ''\<newline>```''))
    (io_then (io_print ''### Observation'')
    (io_bind (io_call_tool L selected_tool act_args) (\<lambda>tool_output.
     io_then (io_ctx_add L \<lparr>msg_role = ''tool'', msg_content = tool_output\<rparr>)
    (io_then (io_print tool_output)
    (io_then (io_print ''### Done Check'')
    (io_bind (io_chat L (done_prompt goal) is_done_model) (\<lambda>reply.
     io_lift (is_done_of L reply)))))))))))))))))))))))"

text \<open>The \<^verbatim>\<open>if is_done:\<close> branch: one line printed, one last chat, its content returned.\<close>

definition final_answer :: "'s library \<Rightarrow> string \<Rightarrow> ('s, string) io" where
  "final_answer L goal =
     io_then (io_print ''Done. Will summarize and return output now.'')
             (io_chat L (final_prompt goal) NoFormat)"

text \<open>
  \<^verbatim>\<open>while not done:\<close> with its two variables \<open>done\<close> and \<open>turn_num\<close>. The loop
  may run for ever, so the function is partial: \<open>None\<close> is a run that never
  returns. A run that returns gives its outcome, the final world and the final
  \<open>turn_num\<close>; the outcome \<open>Inr None\<close> is the function falling off its end after
  the loop, which returns Python's \<^verbatim>\<open>None\<close>.
\<close>

partial_function (option) react_loop ::
  "'s library \<Rightarrow> string \<Rightarrow> react_toolbox \<Rightarrow> bool \<Rightarrow> nat \<Rightarrow> 's world
     \<Rightarrow> ((exn + string option) \<times> 's world \<times> nat) option" where
  "react_loop L goal tb done turn_num w =
     (if \<not> done then
        (case turn L goal tb (turn_num + 1) w of
           (Inl e, w') \<Rightarrow> Some (Inl e, w', turn_num + 1)
         | (Inr is_done, w') \<Rightarrow>
             if is_done then
               (case final_answer L goal w' of
                  (Inl e, w'') \<Rightarrow> Some (Inl e, w'', turn_num + 1)
                | (Inr answer, w'') \<Rightarrow> Some (Inr (Some answer), w'', turn_num + 1))
             else react_loop L goal tb False (turn_num + 1) (snd (io_print ''Not done.'' w')))
      else Some (Inr None, w, turn_num))"

text \<open>
  The statements before the loop: the assertion on the view of the context, the
  system prompt, and the two messages added to the context.
\<close>

definition fresh_context :: "message list option \<Rightarrow> bool" where
  "fresh_context test_ctx_lin =
     (case test_ctx_lin of None \<Rightarrow> False | Some msgs \<Rightarrow> length msgs = 0)"

definition react_setup :: "'s library \<Rightarrow> string \<Rightarrow> react_toolbox \<Rightarrow> ('s, unit) io" where
  "react_setup L goal tb =
     io_bind (io_view L) (\<lambda>test_ctx_lin.
     io_then (io_lift (if fresh_context test_ctx_lin then Inr ()
                       else Inl (AssertionError ''ReACT expects a fresh context.'')))
    (io_bind (io_render L (tools tb)) (\<lambda>sys_prompt.
     io_then (io_ctx_add L \<lparr>msg_role = ''system'', msg_content = sys_prompt\<rparr>)
             (io_ctx_add L \<lparr>msg_role = ''user'', msg_content = goal\<rparr>))))"

definition react ::
  "'s library \<Rightarrow> 's \<Rightarrow> string \<Rightarrow> string option \<Rightarrow> react_toolbox
     \<Rightarrow> ((exn + string option) \<times> 's world \<times> nat) option" where
  "react L m goal state_description tb =
     (case react_setup L goal tb \<lparr>session = m, trace = []\<rparr> of
        (Inl e, w) \<Rightarrow> Some (Inl e, w, 0)
      | (Inr u, w) \<Rightarrow> react_loop L goal tb False 0 w)"

subsection \<open>The operations of a turn, as the specification lists them\<close>

text \<open>
  The calls of a trace are its events other than printed lines.
\<close>

fun is_print :: "event \<Rightarrow> bool" where
  "is_print (EPrint line) = True"
| "is_print ev = False"

definition calls :: "event list \<Rightarrow> event list" where
  "calls tr = filter (\<lambda>ev. \<not> is_print ev) tr"

text \<open>
  What one turn exchanged: the thought, the reply that selects the tool, the tool it
  selects, the reply with the arguments, the tool's output, and the reply to the
  done check.
\<close>

record turn_data =
  td_thought :: string
  td_action :: string
  td_tool :: react_tool
  td_args :: string
  td_output :: string
  td_reply :: string

text \<open>The schema passed with a chat request that was made (it was built, then).\<close>

definition schema_of :: "exn + format \<Rightarrow> format" where
  "schema_of r = (case r of Inl e \<Rightarrow> NoFormat | Inr fmt \<Rightarrow> fmt)"

text \<open>
  The specification's list for one turn: ask what to do next, ask which tool, ask
  with what arguments, call the tool and add its output to the context as a tool
  message, ask whether the answer is final. The properties below compare the calls
  of \<open>turn\<close> with this list.
\<close>

definition turn_operations :: "'s library \<Rightarrow> string \<Rightarrow> react_toolbox \<Rightarrow> turn_data \<Rightarrow> event list" where
  "turn_operations L goal tb d =
     [ EChat thought_prompt NoFormat (Inr (td_thought d)),
       EChat action_prompt (schema_of (tool_name_schema tb)) (Inr (td_action d)),
       EChat args_prompt (schema_of (args_schema L (td_tool d))) (Inr (td_args d)),
       ECallTool (td_tool d) (td_args d) (Inr (td_output d)),
       ECtxAdd \<lparr>msg_role = ''tool'', msg_content = td_output d\<rparr>,
       EChat (done_prompt goal) is_done_model (Inr (td_reply d)) ]"

text \<open>
  The replies of the turn are consistent with each other: the selected tool is the
  one \<^verbatim>\<open>get_tool_from_schema\<close> gives for the action reply, the arguments reply
  is a JSON object, and the output is what the tool's function returns when called
  with that object as its keyword arguments.
\<close>

definition turn_ok :: "'s library \<Rightarrow> react_toolbox \<Rightarrow> turn_data \<Rightarrow> bool" where
  "turn_ok L tb d =
     (get_tool_from_schema L tb (td_action d) = Inr (Some (td_tool d))
      \<and> (case json_loads L (td_args d) of
           Inr (JObj kwargs) \<Rightarrow> fn_call (fn (td_tool d)) kwargs = Inr (td_output d)
         | _ \<Rightarrow> False))"

text \<open>
  The turn as the specification lists it, written without the printed lines: the
  five requests and the tool call in order, each chat request sent on the session
  that the request before it left, the tool message added to the context between
  the tool call and the done check. An operation that raises ends the turn with
  its exception. The value is the outcome of the turn, the session after it, and
  the operations made, each with its outcome.
\<close>

definition spec_turn ::
  "'s library \<Rightarrow> string \<Rightarrow> react_toolbox \<Rightarrow> 's \<Rightarrow> (exn + bool) \<times> 's \<times> event list" where
  "spec_turn L goal tb s0 =
     (case chat L s0 thought_prompt NoFormat of
        (Inl e, s1) \<Rightarrow> (Inl e, s1, [EChat thought_prompt NoFormat (Inl e)])
      | (Inr thought, s1) \<Rightarrow>
     (case tool_name_schema tb of
        Inl e \<Rightarrow> (Inl e, s1, [EChat thought_prompt NoFormat (Inr thought)])
      | Inr schema \<Rightarrow>
     (case chat L s1 action_prompt schema of
        (Inl e, s2) \<Rightarrow>
          (Inl e, s2, [EChat thought_prompt NoFormat (Inr thought),
                       EChat action_prompt schema (Inl e)])
      | (Inr act, s2) \<Rightarrow>
     (case (case get_tool_from_schema L tb act of
              Inl e \<Rightarrow> Inl e
            | Inr None \<Rightarrow> Inl AttributeError
            | Inr (Some tool) \<Rightarrow>
                (case get_name tool of
                   Inl e \<Rightarrow> Inl e
                 | Inr shown \<Rightarrow>
                     (case args_schema L tool of
                        Inl e \<Rightarrow> Inl e
                      | Inr args_format \<Rightarrow> Inr (tool, args_format)))) of
        Inl e \<Rightarrow>
          (Inl e, s2, [EChat thought_prompt NoFormat (Inr thought),
                       EChat action_prompt schema (Inr act)])
      | Inr (tool, args_format) \<Rightarrow>
     (case chat L s2 args_prompt args_format of
        (Inl e, s3) \<Rightarrow>
          (Inl e, s3, [EChat thought_prompt NoFormat (Inr thought),
                       EChat action_prompt schema (Inr act),
                       EChat args_prompt args_format (Inl e)])
      | (Inr args, s3) \<Rightarrow>
     (case json_loads L args of
        Inl e \<Rightarrow>
          (Inl e, s3, [EChat thought_prompt NoFormat (Inr thought),
                       EChat action_prompt schema (Inr act),
                       EChat args_prompt args_format (Inr args)])
      | Inr parsed \<Rightarrow>
     (case (case parsed of JObj kwargs \<Rightarrow> fn_call (fn tool) kwargs | _ \<Rightarrow> Inl TypeError) of
        Inl e \<Rightarrow>
          (Inl e, s3, [EChat thought_prompt NoFormat (Inr thought),
                       EChat action_prompt schema (Inr act),
                       EChat args_prompt args_format (Inr args),
                       ECallTool tool args (Inl e)])
      | Inr output \<Rightarrow>
     (case chat L (ctx_add L s3 \<lparr>msg_role = ''tool'', msg_content = output\<rparr>)
                (done_prompt goal) is_done_model of
        (Inl e, s4) \<Rightarrow>
          (Inl e, s4, [EChat thought_prompt NoFormat (Inr thought),
                       EChat action_prompt schema (Inr act),
                       EChat args_prompt args_format (Inr args),
                       ECallTool tool args (Inr output),
                       ECtxAdd \<lparr>msg_role = ''tool'', msg_content = output\<rparr>,
                       EChat (done_prompt goal) is_done_model (Inl e)])
      | (Inr reply, s4) \<Rightarrow>
          (is_done_of L reply, s4,
           [EChat thought_prompt NoFormat (Inr thought),
            EChat action_prompt schema (Inr act),
            EChat args_prompt args_format (Inr args),
            ECallTool tool args (Inr output),
            ECtxAdd \<lparr>msg_role = ''tool'', msg_content = output\<rparr>,
            EChat (done_prompt goal) is_done_model (Inr reply)])))))))))"

text \<open>
  The shape of a run of the loop that returns a value, from world \<open>w\<close> and turn
  number \<open>k\<close>: it made one or more turns, every done check but the last was
  answered false and the last true, and the calls are those of the turns followed
  by the final chat, whose content is the value.
\<close>

definition run_shape ::
  "'s library \<Rightarrow> string \<Rightarrow> react_toolbox \<Rightarrow> nat \<Rightarrow> 's world
     \<Rightarrow> (exn + string option) \<times> 's world \<times> nat \<Rightarrow> bool" where
  "run_shape L goal tb k w y =
     (\<forall>r w' k'. y = (Inr r, w', k') \<longrightarrow>
        (\<exists>ds answer. ds \<noteq> [] \<and> k' = k + length ds \<and> r = Some answer
           \<and> calls (trace w') = calls (trace w) @ concat (map (turn_operations L goal tb) ds)
                @ [EChat (final_prompt goal) NoFormat (Inr answer)]
           \<and> (\<forall>d \<in> set ds. turn_ok L tb d)
           \<and> (\<forall>d \<in> set (butlast ds). is_done_of L (td_reply d) = Inr False)
           \<and> is_done_of L (td_reply (last ds)) = Inr True))"

subsection \<open>The script's own tools and two model backends for the examples\<close>

text \<open>The two tools that the script's \<^verbatim>\<open>__main__\<close> section builds.\<close>

definition zip_lookup_tool_fn :: pyfn where
  "zip_lookup_tool_fn =
     \<lparr> fn_name = Some ''zip_lookup_tool_fn'', fn_signature = Inr [''city''],
       fn_call = (\<lambda>kwargs. if map fst kwargs = [''city''] then Inr ''03285'' else Inl TypeError) \<rparr>"

definition zip_lookup_tool :: react_tool where
  "zip_lookup_tool =
     \<lparr> fn = zip_lookup_tool_fn, name = Some ''Zip Code Lookup'',
       description = Some ''Returns the ZIP code given a town name.'' \<rparr>"

definition weather_lookup_fn :: pyfn where
  "weather_lookup_fn =
     \<lparr> fn_name = Some ''weather_lookup_fn'', fn_signature = Inr [''zip_code''],
       fn_call = (\<lambda>kwargs. if map fst kwargs = [''zip_code'']
          then Inr ''The weather in Thornton, NH is sunny with a high of 78 and a low of 52. Scattered showers are possible in the afternoon.''
          else Inl TypeError) \<rparr>"

definition weather_lookup_tool :: react_tool where
  "weather_lookup_tool =
     \<lparr> fn = weather_lookup_fn, name = Some ''Get the weather'',
       description = Some ''Returns the weather given a ZIP code.'' \<rparr>"

definition demo_toolbox :: react_toolbox where
  "demo_toolbox = \<lparr> tools = [zip_lookup_tool, weather_lookup_tool] \<rparr>"

text \<open>
  A tool whose function is \<^verbatim>\<open>functools.partial(zip_lookup_tool_fn)\<close> and whose name
  is not given: the partial object has a signature and can be called, and has no
  \<^verbatim>\<open>__name__\<close>.
\<close>

definition partial_tool :: react_tool where
  "partial_tool =
     \<lparr> fn = \<lparr> fn_name = None, fn_signature = Inr [''city''],
              fn_call = fn_call zip_lookup_tool_fn \<rparr>,
       name = None, description = None \<rparr>"

definition demo_goal :: string where
  "demo_goal = ''What is today's high temperature in Thornton, NH?''"

text \<open>The replies a model gives in the examples, and the JSON values they stand for.\<close>

definition pick_zip :: string where
  \<open>pick_zip = ''{"tool": "Zip Code Lookup"}''\<close>

definition pick_weather :: string where
  \<open>pick_weather = ''{"tool": "Get the weather"}''\<close>

definition args_city :: string where
  \<open>args_city = ''{"city": "Thornton"}''\<close>

definition args_zip :: string where
  \<open>args_zip = ''{"zip_code": "03285"}''\<close>

definition say_done :: string where
  \<open>say_done = ''{"is_done": true}''\<close>

definition say_not_done :: string where
  \<open>say_not_done = ''{"is_done": false}''\<close>

definition reply_json :: "string \<Rightarrow> json option" where
  "reply_json s =
     (if s = pick_zip then Some (JObj [(''tool'', JStr ''Zip Code Lookup'')])
      else if s = pick_weather then Some (JObj [(''tool'', JStr ''Get the weather'')])
      else if s = args_city then Some (JObj [(''city'', JStr ''Thornton'')])
      else if s = args_zip then Some (JObj [(''zip_code'', JStr ''03285'')])
      else if s = say_done then Some (JObj [(''is_done'', JBool True)])
      else if s = say_not_done then Some (JObj [(''is_done'', JBool False)])
      else None)"

text \<open>
  A scripted backend: the session holds the context and the replies the model will
  give, one for each chat request, in order.
\<close>

record script_session =
  ctx :: "message list"
  replies :: "string list"

definition script_lib :: "script_session library" where
  "script_lib =
     \<lparr> view_for_generation = (\<lambda>s. Some (ctx s)),
       ctx_add = (\<lambda>s msg. s\<lparr>ctx := ctx s @ [msg]\<rparr>),
       chat = (\<lambda>s prompt fmt.
         case replies s of
           [] \<Rightarrow> (Inl (External ''no reply''), s)
         | r # rs \<Rightarrow>
             (Inr r, \<lparr> ctx = ctx s @ [\<lparr>msg_role = ''user'', msg_content = prompt\<rparr>,
                                     \<lparr>msg_role = ''assistant'', msg_content = r\<rparr>],
                       replies = rs \<rparr>)),
       render = (\<lambda>ts. case names_of ts of
                         Inl e \<Rightarrow> Inl e
                       | Inr ns \<Rightarrow> Inr (concat (map (\<lambda>n. '' * '' @ n) ns))),
       json_loads = (\<lambda>s. case reply_json s of
                            None \<Rightarrow> Inl (External ''JSONDecodeError'')
                          | Some j \<Rightarrow> Inr j),
       json_dumps = (\<lambda>j. ''{}''),
       parse_json = reply_json,
       validate_bool = (\<lambda>j. case j of JBool b \<Rightarrow> Some b | _ \<Rightarrow> None),
       capitalize = (\<lambda>s. s) \<rparr>"

text \<open>
  The replies of a turn that looks the ZIP code up and is not done, of a turn that
  gets the weather and is done, and a script of \<open>n\<close> turns of the first kind
  followed by one of the second and the final answer.
\<close>

definition not_done_turn :: "string list" where
  "not_done_turn = [''I need the ZIP code.'', pick_zip, args_city, say_not_done]"

definition done_turn :: "string list" where
  "done_turn = [''I need the weather.'', pick_weather, args_zip, say_done]"

definition long_script :: "nat \<Rightarrow> string list" where
  "long_script n = concat (replicate n not_done_turn) @ done_turn @ [''The high is 78.'']"

text \<open>
  A backend whose model never says it is done: the reply depends on the requested
  format alone, and the reply to the done check is always \<open>say_not_done\<close>.
\<close>

definition stubborn_lib :: "unit library" where
  "stubborn_lib =
     \<lparr> view_for_generation = (\<lambda>s. Some []),
       ctx_add = (\<lambda>s msg. s),
       chat = (\<lambda>s prompt fmt.
         (Inr (case fmt of
                 NoFormat \<Rightarrow> ''I need the ZIP code.''
               | Schema model_name model_fields \<Rightarrow>
                   if model_name = ''IsDoneModel'' then say_not_done
                   else if model_name = ''ToolSelectionSchema'' then pick_zip
                   else args_city), s)),
       render = (\<lambda>ts. Inr []),
       json_loads = (\<lambda>s. case reply_json s of
                            None \<Rightarrow> Inl (External ''JSONDecodeError'')
                          | Some j \<Rightarrow> Inr j),
       json_dumps = (\<lambda>j. ''{}''),
       parse_json = reply_json,
       validate_bool = (\<lambda>j. case j of JBool b \<Rightarrow> Some b | _ \<Rightarrow> None),
       capitalize = (\<lambda>s. s) \<rparr>"

section \<open>Properties of demo\_mcp.py\<close>

subsection \<open>str.split\<close>

lemma split_sep_nonempty: "split_sep c xs \<noteq> []"
  by (induction xs) (auto split: list.splits)

lemma length_split_sep: "length (split_sep c xs) = Suc (count_list xs c)"
proof (induction xs)
  case Nil
  show ?case by simp
next
  case (Cons x xs)
  then show ?case
    by (cases "split_sep c xs") (auto simp: split_sep_nonempty)
qed

lemma join_split_sep: "join_sep c (split_sep c xs) = xs"
proof (induction xs)
  case Nil
  show ?case by simp
next
  case (Cons x xs)
  obtain w ws where s: "split_sep c xs = w # ws"
    using split_sep_nonempty [of c xs] by (cases "split_sep c xs") auto
  show ?case
  proof (cases "x = c")
    case True
    with Cons s show ?thesis by simp
  next
    case False
    with Cons s show ?thesis by (cases ws) auto
  qed
qed

lemma split_sep_pieces: "w \<in> set (split_sep c xs) \<Longrightarrow> c \<notin> set w"
proof (induction xs arbitrary: w)
  case Nil
  then show ?case by simp
next
  case (Cons x xs)
  then show ?case
    by (cases "split_sep c xs") (auto split: if_splits)
qed

subsection \<open>The word-limit requirement\<close>

text \<open>
  Claim C7. In \<^verbatim>\<open>write_a_poem\<close> the requirement's validation function accepts a
  candidate output exactly when the number of pieces that splitting it on single
  spaces gives (one more than the number of spaces in it) is strictly less than
  \<open>word_limit\<close>. An output of exactly \<open>word_limit\<close> words is rejected, although the
  requirement's text reads "Use only \<open>word_limit\<close> words."; and this requirement is
  the one the handler passes to \<^verbatim>\<open>instruct\<close>.
\<close>

theorem wl_req_strict:
  "\<exists>f. req_validation_fn (wl_req word_limit) = Some f
     \<and> (\<forall>x. f x = (int (length (split_sep CHR '' '' x)) < word_limit))
     \<and> (\<forall>x. f x = (1 + int (count_list x CHR '' '') < word_limit))
     \<and> (\<forall>x. int (length (split_sep CHR '' '' x)) = word_limit \<longrightarrow> \<not> f x)
     \<and> req_description (wl_req word_limit) = ''Use only '' @ str_int word_limit @ '' words.''
     \<and> set (fst (write_a_poem L word_limit))
         \<subseteq> {NewSession ''granite4:micro'' (word_limit + 10),
             Instruct ''Write a poem'' [wl_req word_limit] 2}"
  by (auto simp: wl_req_def length_split_sep write_a_poem_def split: sum.splits)

lemma str_int_4: "str_int 4 = ''4''"
  by (simp add: str_int_def digit_char_def str_nat.simps [of 4])

theorem wl_req_strict_witness:
  "\<exists>f. req_validation_fn (wl_req 4) = Some f
     \<and> int (length (split_sep CHR '' '' ''roses are red too'')) = 4
     \<and> \<not> f ''roses are red too''
     \<and> f ''roses are red''
     \<and> req_description (wl_req 4) = ''Use only 4 words.''"
proof -
  from wl_req_strict [of 4 poem_lib]
  obtain f where f: "req_validation_fn (wl_req 4) = Some f"
    and iff: "\<forall>x. f x = (int (length (split_sep CHR '' '' x)) < 4)"
    and strict: "\<forall>x. int (length (split_sep CHR '' '' x)) = 4 \<longrightarrow> \<not> f x"
    and descr: "req_description (wl_req 4) = ''Use only '' @ str_int 4 @ '' words.''"
    by (elim exE conjE)
  have four: "int (length (split_sep CHR '' '' ''roses are red too'')) = 4"
    by simp
  have three: "int (length (split_sep CHR '' '' ''roses are red'')) < 4"
    by simp
  have no: "\<not> f ''roses are red too''"
    using spec [OF strict, of "''roses are red too''"] by simp
  have yes: "f ''roses are red''"
    using spec [OF iff, of "''roses are red''"] by simp
  from descr have "req_description (wl_req 4) = ''Use only 4 words.''"
    by (simp add: str_int_4)
  with f four no yes show ?thesis
    by (intro exI [of _ f] conjI)
qed

subsection \<open>The greeting resource\<close>

text \<open>
  Claim C9. For every name the resource handler \<^verbatim>\<open>get_greeting\<close> returns exactly
  "Hello, " followed by the name followed by "!": the name can be read back from the
  greeting, two names give the same greeting only when they are equal, and the
  handler makes no call into the library (its list of library calls is empty), so
  its result depends on the name alone.
\<close>

theorem get_greeting_exact:
  "get_greeting nm = ([], Inr (''Hello, '' @ nm @ ''!''))
   \<and> (\<exists>s. snd (get_greeting nm) = Inr s \<and> take 7 s = ''Hello, '' \<and> drop 7 (butlast s) = nm
          \<and> last s = CHR ''!'' \<and> length s = length nm + 8)
   \<and> ((get_greeting nm = get_greeting nm') = (nm = nm'))
   \<and> mcp_handle L (ReadResource nm) = get_greeting nm"
  by (auto simp: get_greeting_def mcp_handle_def butlast_append)

subsection \<open>The two endpoints\<close>

text \<open>
  Claim C5 as the specification states it: both endpoints delegate to the library.
  It fails for the resource: reading \<^verbatim>\<open>greeting://World\<close> makes no library call
  at all and still returns its string.
\<close>

theorem greeting_makes_no_library_call:
  "fst (mcp_handle poem_lib (ReadResource ''World'')) = []
   \<and> snd (mcp_handle poem_lib (ReadResource ''World'')) = Inr ''Hello, World!''"
  by (simp add: mcp_handle_def get_greeting_def)

text \<open>
  Claim C5, amended. The tool \<^verbatim>\<open>write_a_poem\<close> delegates to the library: its first
  call creates a session on the model "granite4:micro" with \<open>word_limit + 10\<close> new
  tokens, and when the session exists, \<^verbatim>\<open>instruct\<close> answers and the answer is a
  thunk, the calls are that one and one \<^verbatim>\<open>instruct\<close> request with a loop budget of
  2, and the tool returns \<^verbatim>\<open>str\<close> of the answer's value. The resource
  \<^verbatim>\<open>greeting://{name}\<close> makes no library call and returns the string
  "Hello, \<open>name\<close>!". Both return a string.
\<close>

theorem mcp_endpoints:
  "(\<exists>cs. fst (mcp_handle L (CallTool word_limit))
          = NewSession ''granite4:micro'' (word_limit + 10) # cs)
   \<and> (new_session L ''granite4:micro'' (word_limit + 10) = Inr m
        \<and> instruct L m ''Write a poem'' [wl_req word_limit] 2 = Inr res
        \<and> is_thunk L res
      \<longrightarrow> mcp_handle L (CallTool word_limit)
          = ([NewSession ''granite4:micro'' (word_limit + 10),
              Instruct ''Write a poem'' [wl_req word_limit] 2],
             Inr (py_str (thunk_value L res))))
   \<and> mcp_handle L (ReadResource nm) = ([], Inr (''Hello, '' @ nm @ ''!''))"
  by (auto simp: mcp_handle_def write_a_poem_def get_greeting_def split: sum.splits)

theorem mcp_endpoints_witness:
  "new_session poem_lib ''granite4:micro'' (4 + 10) = Inr 14
   \<and> instruct poem_lib 14 ''Write a poem'' [wl_req 4] 2 = Inr ''roses are red too''
   \<and> is_thunk poem_lib ''roses are red too''
   \<and> mcp_handle poem_lib (CallTool 4)
       = ([NewSession ''granite4:micro'' 14, Instruct ''Write a poem'' [wl_req 4] 2],
          Inr ''roses are red too'')
   \<and> mcp_handle poem_lib (ReadResource ''World'') = ([], Inr ''Hello, World!'')"
proof -
  have a: "new_session poem_lib ''granite4:micro'' (4 + 10) = Inr 14"
    by (simp add: poem_lib_def)
  have b: "instruct poem_lib 14 ''Write a poem'' [wl_req 4] 2 = Inr ''roses are red too''"
    by (simp add: poem_lib_def)
  have c: "is_thunk poem_lib ''roses are red too''"
    by (simp add: poem_lib_def)
  have v: "py_str (thunk_value poem_lib ''roses are red too'') = ''roses are red too''"
    by (simp add: poem_lib_def py_str_def)
  from mcp_endpoints [of poem_lib 4 14 "''roses are red too''" "''World''"] a b c v
  show ?thesis by simp
qed

section \<open>Properties of demo\_agent.py\<close>

subsection \<open>Statements in sequence\<close>

lemma calls_append: "calls (xs @ ys) = calls xs @ calls ys"
  by (simp add: calls_def)

lemma calls_print: "calls [EPrint line] = []"
  by (simp add: calls_def)

lemma io_bind_Inr:
  assumes "io_bind stmt rest w = (Inr x, w')"
  obtains a w1 where "stmt w = (Inr a, w1)" and "rest a w1 = (Inr x, w')"
  using assms by (auto simp: io_bind_def split: prod.splits sum.splits)

lemma io_then_Inr:
  assumes "io_then stmt rest w = (Inr x, w')"
  obtains w1 where "stmt w = (Inr (), w1)" and "rest w1 = (Inr x, w')"
  using assms by (auto simp: io_then_def io_bind_def split: prod.splits sum.splits)

lemma io_print_Inr:
  assumes "io_print line w = (Inr u, w1)"
  shows "w1 = emit (EPrint line) w"
  using assms by (simp add: io_print_def)

lemma io_chat_Inr:
  assumes "io_chat L prompt fmt w = (Inr reply, w1)"
  shows "chat L (session w) prompt fmt = (Inr reply, session w1)
         \<and> trace w1 = trace w @ [EChat prompt fmt (Inr reply)]"
  using assms by (auto simp: io_chat_def emit_def split: prod.splits)

lemma io_lift_Inr:
  assumes "io_lift r w = (Inr a, w1)"
  shows "r = Inr a \<and> w1 = w"
  using assms by (simp add: io_lift_def)

lemma io_call_tool_Inr:
  assumes "io_call_tool L tool kwargs_json w = (Inr out, w1)"
  shows "call_tool L tool kwargs_json = Inr out \<and> session w1 = session w
         \<and> trace w1 = trace w @ [ECallTool tool kwargs_json (Inr out)]"
  using assms by (auto simp: io_call_tool_def emit_def Let_def)

lemma io_ctx_add_Inr:
  assumes "io_ctx_add L msg w = (Inr u, w1)"
  shows "session w1 = ctx_add L (session w) msg \<and> trace w1 = trace w @ [ECtxAdd msg]"
  using assms by (auto simp: io_ctx_add_def emit_def)

lemma trace_emit: "trace (emit ev w) = trace w @ [ev]" "session (emit ev w) = session w"
  by (simp_all add: emit_def)

lemmas io_defs = io_bind_def io_then_def io_lift_def io_print_def io_chat_def io_ctx_add_def
  io_call_tool_def io_view_def io_render_def emit_def

subsection \<open>The example backends\<close>

lemma reply_json_values:
  "reply_json pick_zip = Some (JObj [(''tool'', JStr ''Zip Code Lookup'')])"
  "reply_json pick_weather = Some (JObj [(''tool'', JStr ''Get the weather'')])"
  "reply_json args_city = Some (JObj [(''city'', JStr ''Thornton'')])"
  "reply_json args_zip = Some (JObj [(''zip_code'', JStr ''03285'')])"
  "reply_json say_done = Some (JObj [(''is_done'', JBool True)])"
  "reply_json say_not_done = Some (JObj [(''is_done'', JBool False)])"
  by (simp_all add: reply_json_def pick_zip_def pick_weather_def args_city_def args_zip_def
      say_done_def say_not_done_def)

lemma demo_tools: "tools demo_toolbox = [zip_lookup_tool, weather_lookup_tool]"
  by (simp add: demo_toolbox_def)

lemma demo_get_name:
  "get_name zip_lookup_tool = Inr ''Zip Code Lookup''"
  "get_name weather_lookup_tool = Inr ''Get the weather''"
  "get_name partial_tool = Inl AttributeError"
  by (simp_all add: get_name_def zip_lookup_tool_def weather_lookup_tool_def partial_tool_def)

lemma demo_tool_names:
  "tool_names demo_toolbox = Inr [''Zip Code Lookup'', ''Get the weather'']"
  by (simp add: tool_names_def demo_tools demo_get_name)

lemma demo_tool_name_schema:
  "tool_name_schema demo_toolbox
     = Inr (Schema ''ToolSelectionSchema''
              [(''tool'', LiteralField [''Zip Code Lookup'', ''Get the weather''])])"
  by (simp add: tool_name_schema_def demo_tool_names)

lemma demo_args_schema:
  "args_schema L zip_lookup_tool
     = Inr (Schema (capitalize L ''zip_lookup_tool_fn'' @ ''ToolSchema'') [(''city'', StrField)])"
  "args_schema L weather_lookup_tool
     = Inr (Schema (capitalize L ''weather_lookup_fn'' @ ''ToolSchema'') [(''zip_code'', StrField)])"
  by (simp_all add: args_schema_def zip_lookup_tool_def zip_lookup_tool_fn_def
      weather_lookup_tool_def weather_lookup_fn_def)

lemma script_pick_zip:
  "get_tool_from_schema script_lib demo_toolbox pick_zip = Inr (Some zip_lookup_tool)"
  by (simp add: get_tool_from_schema_def demo_tool_name_schema
      model_validate_json_def script_lib_def reply_json_values get_tool_from_name_def
      demo_tools demo_get_name)

lemma script_pick_weather:
  "get_tool_from_schema script_lib demo_toolbox pick_weather = Inr (Some weather_lookup_tool)"
  by (simp add: get_tool_from_schema_def demo_tool_name_schema
      model_validate_json_def script_lib_def reply_json_values get_tool_from_name_def
      demo_tools demo_get_name)

lemma script_call_zip: "call_tool script_lib zip_lookup_tool args_city = Inr ''03285''"
  by (simp add: call_tool_def script_lib_def reply_json_values zip_lookup_tool_def
      zip_lookup_tool_fn_def)

lemma script_call_weather:
  "\<exists>out. call_tool script_lib weather_lookup_tool args_zip = Inr out"
  by (simp add: call_tool_def script_lib_def reply_json_values weather_lookup_tool_def
      weather_lookup_fn_def)

lemma script_is_done:
  "is_done_of script_lib say_done = Inr True"
  "is_done_of script_lib say_not_done = Inr False"
  by (simp_all add: is_done_of_def model_validate_json_def is_done_model_def script_lib_def
      reply_json_values)

lemma script_json_loads:
  "json_loads script_lib args_city = Inr (JObj [(''city'', JStr ''Thornton'')])"
  "json_loads script_lib args_zip = Inr (JObj [(''zip_code'', JStr ''03285'')])"
  by (simp_all add: script_lib_def reply_json_values)

lemma script_chat:
  "chat script_lib \<lparr>ctx = c, replies = r # rs\<rparr> prompt fmt
     = (Inr r, \<lparr>ctx = c @ [\<lparr>msg_role = ''user'', msg_content = prompt\<rparr>,
                             \<lparr>msg_role = ''assistant'', msg_content = r\<rparr>], replies = rs\<rparr>)"
  by (simp add: script_lib_def)

lemma script_ctx_add:
  "ctx_add script_lib \<lparr>ctx = c, replies = rs\<rparr> msg = \<lparr>ctx = c @ [msg], replies = rs\<rparr>"
  by (simp add: script_lib_def)

lemma script_not_done_turn:
  "\<exists>c' tr'. turn script_lib goal demo_toolbox k
       \<lparr>session = \<lparr>ctx = c, replies = not_done_turn @ rest\<rparr>, trace = tr\<rparr>
     = (Inr False, \<lparr>session = \<lparr>ctx = c', replies = rest\<rparr>, trace = tr'\<rparr>)"
  by (simp add: turn_def io_defs not_done_turn_def script_chat script_ctx_add
      demo_tool_name_schema demo_get_name demo_args_schema script_pick_zip script_call_zip
      script_is_done script_json_loads Let_def)

lemma script_done_turn:
  "\<exists>c' tr'. turn script_lib goal demo_toolbox k
       \<lparr>session = \<lparr>ctx = c, replies = done_turn @ rest\<rparr>, trace = tr\<rparr>
     = (Inr True, \<lparr>session = \<lparr>ctx = c', replies = rest\<rparr>, trace = tr'\<rparr>)"
proof -
  obtain out where "call_tool script_lib weather_lookup_tool args_zip = Inr out"
    using script_call_weather by (elim exE)
  then show ?thesis
    by (simp add: turn_def io_defs done_turn_def script_chat script_ctx_add
        demo_tool_name_schema demo_get_name demo_args_schema script_pick_weather
        script_is_done script_json_loads Let_def)
qed

lemma script_final:
  "\<exists>c' tr'. final_answer script_lib goal
       \<lparr>session = \<lparr>ctx = c, replies = [answer]\<rparr>, trace = tr\<rparr>
     = (Inr answer, \<lparr>session = \<lparr>ctx = c', replies = []\<rparr>, trace = tr'\<rparr>)"
  by (simp add: final_answer_def io_defs script_chat)

lemma stubborn_pick_zip:
  "get_tool_from_schema stubborn_lib demo_toolbox pick_zip = Inr (Some zip_lookup_tool)"
  by (simp add: get_tool_from_schema_def demo_tool_name_schema
      model_validate_json_def stubborn_lib_def reply_json_values get_tool_from_name_def
      demo_tools demo_get_name)

lemma stubborn_call_zip: "call_tool stubborn_lib zip_lookup_tool args_city = Inr ''03285''"
  by (simp add: call_tool_def stubborn_lib_def reply_json_values zip_lookup_tool_def
      zip_lookup_tool_fn_def)

lemma stubborn_is_done: "is_done_of stubborn_lib say_not_done = Inr False"
  by (simp add: is_done_of_def model_validate_json_def is_done_model_def stubborn_lib_def
      reply_json_values)

lemma stubborn_chat:
  "chat stubborn_lib s prompt NoFormat = (Inr ''I need the ZIP code.'', s)"
  "chat stubborn_lib s prompt (Schema ''ToolSelectionSchema'' fs) = (Inr pick_zip, s)"
  "chat stubborn_lib s prompt is_done_model = (Inr say_not_done, s)"
  "chat stubborn_lib s prompt (Schema ''zip_lookup_tool_fnToolSchema'' fs) = (Inr args_city, s)"
  by (simp_all add: stubborn_lib_def is_done_model_def)

lemma stubborn_capitalize: "capitalize stubborn_lib n = n"
  by (simp add: stubborn_lib_def)

lemma stubborn_json_loads:
  "json_loads stubborn_lib args_city = Inr (JObj [(''city'', JStr ''Thornton'')])"
  by (simp add: stubborn_lib_def reply_json_values)

lemma stubborn_turn:
  "\<exists>w'. turn stubborn_lib goal demo_toolbox k w = (Inr False, w')"
  by (simp add: turn_def io_defs stubborn_chat demo_tool_name_schema demo_get_name
      demo_args_schema stubborn_capitalize stubborn_pick_zip stubborn_call_zip
      stubborn_is_done stubborn_json_loads Let_def)

subsection \<open>Selecting the tool\<close>

lemma names_of_error: "names_of ts = Inl e \<Longrightarrow> e = AttributeError"
proof (induction ts)
  case Nil
  then show ?case by simp
next
  case (Cons tool rest)
  then show ?case
    by (auto simp: get_name_def split: sum.splits option.splits)
qed

lemma names_of_Nil: "names_of ts = Inr [] \<Longrightarrow> ts = []"
  by (cases ts) (auto split: sum.splits)

lemma first_named_Some:
  "first_named nm ts = Inr (Some tool) \<Longrightarrow> tool \<in> set ts \<and> get_name tool = Inr nm"
proof (induction ts)
  case Nil
  then show ?case by simp
next
  case (Cons t rest)
  then show ?case
    by (auto split: sum.splits if_splits)
qed

lemma first_named_names:
  "names_of ts = Inr ns \<Longrightarrow>
     (nm \<in> set ns \<longrightarrow> (\<exists>tool. first_named nm ts = Inr (Some tool)))
     \<and> (nm \<notin> set ns \<longrightarrow> first_named nm ts = Inr None)"
proof (induction ts arbitrary: ns)
  case Nil
  then show ?case by simp
next
  case (Cons t rest)
  then show ?case
    by (auto split: sum.splits)
qed

lemma validate_tool_field:
  "validate_fields L [(''tool'', LiteralField allowed)] kvs = Some validated
   \<longleftrightarrow> (\<exists>s. map_of kvs ''tool'' = Some (JStr s) \<and> s \<in> set allowed
          \<and> validated = [(''tool'', JStr s)])"
proof (cases "map_of kvs ''tool''")
  case None
  then show ?thesis by simp
next
  case (Some v)
  then show ?thesis by (cases v) auto
qed

lemma validate_tool_selection:
  "model_validate_json L (Schema ''ToolSelectionSchema'' [(''tool'', LiteralField names)]) content
     = (case parse_json L content of
          Some (JObj kvs) \<Rightarrow>
            (case map_of kvs ''tool'' of
               Some (JStr s) \<Rightarrow>
                 if s \<in> set names then Inr [(''tool'', JStr s)] else Inl ValidationError
             | _ \<Rightarrow> Inl ValidationError)
        | _ \<Rightarrow> Inl ValidationError)"
proof (cases "parse_json L content")
  case None
  then show ?thesis by (simp add: model_validate_json_def)
next
  case (Some j)
  show ?thesis
  proof (cases j)
    case (JObj kvs)
    show ?thesis
    proof (cases "validate_fields L [(''tool'', LiteralField names)] kvs")
      case None
      then have "\<not> (\<exists>s. map_of kvs ''tool'' = Some (JStr s) \<and> s \<in> set names)"
        using validate_tool_field [of L names kvs] by auto
      with None Some JObj show ?thesis
        by (auto simp: model_validate_json_def split: option.splits json.splits)
    next
      case (Some validated)
      then obtain s where "map_of kvs ''tool'' = Some (JStr s)" "s \<in> set names"
        "validated = [(''tool'', JStr s)]"
        using validate_tool_field [of L names kvs validated] by auto
      with Some \<open>parse_json L content = Some j\<close> JObj show ?thesis
        by (simp add: model_validate_json_def)
    qed
  qed (use Some in \<open>simp_all add: model_validate_json_def\<close>)
qed

lemma get_tool_from_schema_cases:
  "get_tool_from_schema L tb content =
     (case tool_names tb of
        Inl e \<Rightarrow> Inl e
      | Inr names \<Rightarrow>
          if names = [] then Inl SchemaError
          else (case parse_json L content of
                  Some (JObj kvs) \<Rightarrow>
                    (case map_of kvs ''tool'' of
                       Some (JStr s) \<Rightarrow>
                         if s \<in> set names then get_tool_from_name tb s
                         else Inl ValidationError
                     | _ \<Rightarrow> Inl ValidationError)
                | _ \<Rightarrow> Inl ValidationError))"
proof (cases "tool_names tb")
  case (Inl e)
  then show ?thesis by (simp add: get_tool_from_schema_def tool_name_schema_def)
next
  case (Inr names)
  show ?thesis
  proof (cases "names = []")
    case True
    with Inr show ?thesis by (simp add: get_tool_from_schema_def tool_name_schema_def)
  next
    case False
    with Inr show ?thesis
      by (simp add: get_tool_from_schema_def tool_name_schema_def validate_tool_selection
          split: option.splits json.splits)
  qed
qed

text \<open>
  Claim C6 as the specification states it: for every toolbox and every content
  string, \<^verbatim>\<open>get_tool_from_schema\<close> either raises a validation error, when the
  content is not JSON with a \<^verbatim>\<open>tool\<close> field equal to one of the registered tool
  names, or returns a tool of the toolbox. It fails in two ways. With an empty
  toolbox the call raises while the schema is built, before anything is validated,
  and what it raises is not a validation error. With a toolbox that holds a tool whose
  \<^verbatim>\<open>get_name()\<close> raises (\<^verbatim>\<open>name\<close> is \<^verbatim>\<open>None\<close> and \<^verbatim>\<open>fn\<close> is a callable without
  \<^verbatim>\<open>__name__\<close>, such as a \<^verbatim>\<open>functools.partial\<close>), the call raises that
  \<open>AttributeError\<close> although the content names a registered tool: without the
  nameless tool the same content selects the tool.
\<close>

theorem get_tool_from_schema_other_errors:
  "get_tool_from_schema script_lib \<lparr>tools = []\<rparr> pick_zip = Inl SchemaError
   \<and> get_tool_from_schema script_lib \<lparr>tools = [zip_lookup_tool, partial_tool]\<rparr> pick_zip
       = Inl AttributeError
   \<and> get_tool_from_schema script_lib \<lparr>tools = [zip_lookup_tool]\<rparr> pick_zip
       = Inr (Some zip_lookup_tool)"
  by (simp add: get_tool_from_schema_cases tool_names_def demo_get_name script_lib_def
      reply_json_values get_tool_from_name_def)

text \<open>
  Claim C6, amended. For every toolbox and every content string,
  \<^verbatim>\<open>get_tool_from_schema\<close> either raises or returns a tool, never \<^verbatim>\<open>None\<close>.
  For a toolbox that is not empty and whose tools all have a name, it raises exactly
  when the content is not a JSON object whose \<^verbatim>\<open>tool\<close> field is a string equal to
  one of the registered tool names, and what it raises then is pydantic's validation
  error. When it returns a tool, the tool belongs to the toolbox, its
  \<^verbatim>\<open>get_name()\<close> returns the validated \<^verbatim>\<open>tool\<close> field, and it is the tool that
  \<^verbatim>\<open>get_tool_from_name\<close> finds for that name. With an empty toolbox it raises
  when the schema is built, whatever the content; with a tool whose \<^verbatim>\<open>get_name()\<close>
  raises it raises that \<open>AttributeError\<close>, whatever the content.
\<close>

theorem get_tool_from_schema_never_None:
  "get_tool_from_schema L tb content \<noteq> Inr None
   \<and> (tool_names tb = Inr names \<and> names \<noteq> [] \<longrightarrow>
        ((\<exists>e. get_tool_from_schema L tb content = Inl e)
          = (\<not> (\<exists>kvs s. parse_json L content = Some (JObj kvs)
                   \<and> map_of kvs ''tool'' = Some (JStr s) \<and> s \<in> set names)))
        \<and> (\<forall>e. get_tool_from_schema L tb content = Inl e \<longrightarrow> e = ValidationError))
   \<and> (\<forall>tool. get_tool_from_schema L tb content = Inr (Some tool)
          \<longrightarrow> tool \<in> set (tools tb)
              \<and> (\<exists>kvs nm. parse_json L content = Some (JObj kvs)
                     \<and> map_of kvs ''tool'' = Some (JStr nm)
                     \<and> get_name tool = Inr nm
                     \<and> get_tool_from_name tb nm = Inr (Some tool)))
   \<and> (tools tb = [] \<longrightarrow> get_tool_from_schema L tb content = Inl SchemaError)
   \<and> (\<forall>e. tool_names tb = Inl e
          \<longrightarrow> e = AttributeError \<and> get_tool_from_schema L tb content = Inl AttributeError)"
proof (intro conjI allI impI)
  show "get_tool_from_schema L tb content \<noteq> Inr None"
  proof (cases "tool_names tb")
    case (Inl e)
    then show ?thesis by (simp add: get_tool_from_schema_cases)
  next
    case (Inr ns)
    then have "names_of (tools tb) = Inr ns" by (simp add: tool_names_def)
    have "get_tool_from_name tb s \<noteq> Inr None" if "s \<in> set ns" for s
      using first_named_names [OF \<open>names_of (tools tb) = Inr ns\<close>, of s] that
      by (auto simp: get_tool_from_name_def)
    with Inr show ?thesis
      by (auto simp: get_tool_from_schema_cases split: option.splits json.splits)
  qed
next
  assume a: "tool_names tb = Inr names \<and> names \<noteq> []"
  then have n: "names_of (tools tb) = Inr names" by (simp add: tool_names_def)
  have found: "\<exists>tool. get_tool_from_name tb s = Inr (Some tool)" if "s \<in> set names" for s
    using first_named_names [OF n, of s] that by (auto simp: get_tool_from_name_def)
  have valid: "\<exists>tool. get_tool_from_schema L tb content = Inr (Some tool)"
    if "\<exists>kvs s. parse_json L content = Some (JObj kvs)
          \<and> map_of kvs ''tool'' = Some (JStr s) \<and> s \<in> set names"
  proof -
    from that obtain kvs s where p: "parse_json L content = Some (JObj kvs)"
      and t: "map_of kvs ''tool'' = Some (JStr s)" and s: "s \<in> set names"
      by (elim exE conjE)
    from found [OF s] obtain tool where "get_tool_from_name tb s = Inr (Some tool)"
      by (elim exE)
    with a p t s have "get_tool_from_schema L tb content = Inr (Some tool)"
      by (simp add: get_tool_from_schema_cases)
    then show ?thesis by (rule exI)
  qed
  have invalid: "get_tool_from_schema L tb content = Inl ValidationError"
    if "\<not> (\<exists>kvs s. parse_json L content = Some (JObj kvs)
          \<and> map_of kvs ''tool'' = Some (JStr s) \<and> s \<in> set names)"
    using that a
    by (auto simp: get_tool_from_schema_cases split: option.splits json.splits)
  show "(\<exists>e. get_tool_from_schema L tb content = Inl e)
          = (\<not> (\<exists>kvs s. parse_json L content = Some (JObj kvs)
                   \<and> map_of kvs ''tool'' = Some (JStr s) \<and> s \<in> set names))"
    using valid invalid by auto
  fix e
  assume "get_tool_from_schema L tb content = Inl e"
  with valid invalid show "e = ValidationError"
    by (cases "\<exists>kvs s. parse_json L content = Some (JObj kvs)
          \<and> map_of kvs ''tool'' = Some (JStr s) \<and> s \<in> set names") auto
next
  fix tool
  assume a: "get_tool_from_schema L tb content = Inr (Some tool)"
  then obtain kvs s where p: "parse_json L content = Some (JObj kvs)"
    and t: "map_of kvs ''tool'' = Some (JStr s)"
    and g: "get_tool_from_name tb s = Inr (Some tool)"
    by (auto simp: get_tool_from_schema_cases
        split: sum.splits option.splits json.splits if_splits)
  from g have m: "tool \<in> set (tools tb)" and n: "get_name tool = Inr s"
    using first_named_Some [of s "tools tb" tool] by (simp_all add: get_tool_from_name_def)
  from m show "tool \<in> set (tools tb)" .
  from p t n g show "\<exists>kvs nm. parse_json L content = Some (JObj kvs)
                     \<and> map_of kvs ''tool'' = Some (JStr nm)
                     \<and> get_name tool = Inr nm
                     \<and> get_tool_from_name tb nm = Inr (Some tool)"
    by (intro exI [of _ kvs] exI [of _ s] conjI)
next
  assume "tools tb = []"
  then show "get_tool_from_schema L tb content = Inl SchemaError"
    by (simp add: get_tool_from_schema_cases tool_names_def)
next
  fix e
  assume a: "tool_names tb = Inl e"
  then show "e = AttributeError"
    using names_of_error [of "tools tb" e] by (simp add: tool_names_def)
  with a show "get_tool_from_schema L tb content = Inl AttributeError"
    by (simp add: get_tool_from_schema_cases)
qed

theorem get_tool_from_schema_never_None_witness:
  "tool_names demo_toolbox = Inr [''Zip Code Lookup'', ''Get the weather'']
   \<and> get_tool_from_schema script_lib demo_toolbox pick_zip = Inr (Some zip_lookup_tool)
   \<and> zip_lookup_tool \<in> set (tools demo_toolbox)
   \<and> parse_json script_lib pick_zip = Some (JObj [(''tool'', JStr ''Zip Code Lookup'')])
   \<and> get_name zip_lookup_tool = Inr ''Zip Code Lookup''
   \<and> get_tool_from_name demo_toolbox ''Zip Code Lookup'' = Inr (Some zip_lookup_tool)
   \<and> get_tool_from_schema script_lib demo_toolbox ''Zip Code Lookup'' = Inl ValidationError
   \<and> get_tool_from_schema script_lib \<lparr>tools = []\<rparr> pick_zip = Inl SchemaError
   \<and> tool_names \<lparr>tools = [partial_tool]\<rparr> = Inl AttributeError
   \<and> get_tool_from_schema script_lib \<lparr>tools = [partial_tool]\<rparr> pick_zip = Inl AttributeError"
proof -
  note main = get_tool_from_schema_never_None
  have n: "tool_names demo_toolbox = Inr [''Zip Code Lookup'', ''Get the weather'']"
    by (rule demo_tool_names)
  have a: "get_tool_from_schema script_lib demo_toolbox pick_zip = Inr (Some zip_lookup_tool)"
    by (rule script_pick_zip)
  have c: "parse_json script_lib pick_zip = Some (JObj [(''tool'', JStr ''Zip Code Lookup'')])"
    by (simp add: script_lib_def reply_json_values)
  from main [of script_lib demo_toolbox pick_zip, THEN conjunct2, THEN conjunct2,
      THEN conjunct1, rule_format, OF a] c
  have b: "zip_lookup_tool \<in> set (tools demo_toolbox)
      \<and> get_name zip_lookup_tool = Inr ''Zip Code Lookup''
      \<and> get_tool_from_name demo_toolbox ''Zip Code Lookup'' = Inr (Some zip_lookup_tool)"
    by auto
  have p: "parse_json script_lib ''Zip Code Lookup'' = None"
    by (simp add: script_lib_def reply_json_def pick_zip_def pick_weather_def args_city_def
        args_zip_def say_done_def say_not_done_def)
  from main [of script_lib demo_toolbox "''Zip Code Lookup''"
      "[''Zip Code Lookup'', ''Get the weather'']", THEN conjunct2, THEN conjunct1] n p
  have d: "(\<exists>e. get_tool_from_schema script_lib demo_toolbox ''Zip Code Lookup'' = Inl e)
      \<and> (\<forall>e. get_tool_from_schema script_lib demo_toolbox ''Zip Code Lookup'' = Inl e
            \<longrightarrow> e = ValidationError)"
    by simp
  then have e: "get_tool_from_schema script_lib demo_toolbox ''Zip Code Lookup''
      = Inl ValidationError"
    by auto
  from main [of script_lib "\<lparr>tools = []\<rparr>" pick_zip, THEN conjunct2, THEN conjunct2,
      THEN conjunct2, THEN conjunct1]
  have f: "get_tool_from_schema script_lib \<lparr>tools = []\<rparr> pick_zip = Inl SchemaError"
    by simp
  have g: "tool_names \<lparr>tools = [partial_tool]\<rparr> = Inl AttributeError"
    by (simp add: tool_names_def demo_get_name)
  from main [of script_lib "\<lparr>tools = [partial_tool]\<rparr>" pick_zip, THEN conjunct2,
      THEN conjunct2, THEN conjunct2, THEN conjunct2, rule_format, OF g]
  have h: "get_tool_from_schema script_lib \<lparr>tools = [partial_tool]\<rparr> pick_zip
      = Inl AttributeError"
    by simp
  from n a b c e f g h show ?thesis by simp
qed

subsection \<open>A turn against the specification's list\<close>

lemma call_tool_Inr:
  "call_tool L tool kwargs_json = Inr out
   \<longleftrightarrow> (\<exists>kwargs. json_loads L kwargs_json = Inr (JObj kwargs) \<and> fn_call (fn tool) kwargs = Inr out)"
  by (auto simp: call_tool_def split: sum.splits json.splits)

lemma turn_refines:
  "\<exists>ops. spec_turn L goal tb (session w)
           = (fst (turn L goal tb k w), session (snd (turn L goal tb k w)), ops)
        \<and> calls (trace (snd (turn L goal tb k w))) = calls (trace w) @ ops"
proof -
  note defs = turn_def spec_turn_def io_defs call_tool_def calls_def Let_def
  obtain r1 s1 where c1: "chat L (session w) thought_prompt NoFormat = (r1, s1)"
    by (cases "chat L (session w) thought_prompt NoFormat")
  show ?thesis
  proof (cases r1)
    case (Inl e)
    with c1 show ?thesis by (simp add: defs)
  next
    case thought: (Inr thought)
    show ?thesis
    proof (cases "tool_name_schema tb")
      case (Inl e)
      with c1 thought show ?thesis by (simp add: defs)
    next
      case schema: (Inr schema)
      obtain r2 s2 where c2: "chat L s1 action_prompt schema = (r2, s2)"
        by (cases "chat L s1 action_prompt schema")
      show ?thesis
      proof (cases r2)
        case (Inl e)
        with c1 thought schema c2 show ?thesis by (simp add: defs)
      next
        case act: (Inr act)
        show ?thesis
        proof (cases "get_tool_from_schema L tb act")
          case (Inl e)
          with c1 thought schema c2 act show ?thesis by (simp add: defs)
        next
          case sel: (Inr selected)
          show ?thesis
          proof (cases selected)
            case None
            with c1 thought schema c2 act sel show ?thesis by (simp add: defs)
          next
            case tool: (Some tool)
            show ?thesis
            proof (cases "get_name tool")
              case (Inl e)
              with c1 thought schema c2 act sel tool show ?thesis by (simp add: defs)
            next
              case shown: (Inr shown)
              show ?thesis
              proof (cases "args_schema L tool")
                case (Inl e)
                with c1 thought schema c2 act sel tool shown show ?thesis
                  by (simp add: defs)
              next
                case fmt: (Inr args_format)
                obtain r3 s3 where c3: "chat L s2 args_prompt args_format = (r3, s3)"
                  by (cases "chat L s2 args_prompt args_format")
                show ?thesis
                proof (cases r3)
                  case (Inl e)
                  with c1 thought schema c2 act sel tool shown fmt c3 show ?thesis
                    by (simp add: defs)
                next
                  case args: (Inr args)
                  show ?thesis
                  proof (cases "json_loads L args")
                    case (Inl e)
                    with c1 thought schema c2 act sel tool shown fmt c3 args show ?thesis
                      by (simp add: defs)
                  next
                    case parsed: (Inr parsed)
                    let ?r4 = "case parsed of JObj kwargs \<Rightarrow> fn_call (fn tool) kwargs
                               | _ \<Rightarrow> Inl TypeError"
                    have ct: "call_tool L tool args = ?r4"
                      using parsed by (simp add: call_tool_def)
                    show ?thesis
                    proof (cases ?r4)
                      case (Inl e)
                      with c1 thought schema c2 act sel tool shown fmt c3 args parsed ct
                      show ?thesis
                        by (simp add: turn_def spec_turn_def io_defs calls_def Let_def)
                    next
                      case out: (Inr out)
                      obtain r5 s4 where c4:
                        "chat L (ctx_add L s3 \<lparr>msg_role = ''tool'', msg_content = out\<rparr>)
                           (done_prompt goal) is_done_model = (r5, s4)"
                        by (cases "chat L (ctx_add L s3 \<lparr>msg_role = ''tool'', msg_content = out\<rparr>)
                           (done_prompt goal) is_done_model")
                      show ?thesis
                      proof (cases r5)
                        case (Inl e)
                        with c1 thought schema c2 act sel tool shown fmt c3 args parsed ct out c4
                        show ?thesis
                          by (simp add: turn_def spec_turn_def io_defs calls_def Let_def)
                      next
                        case reply: (Inr reply)
                        with c1 thought schema c2 act sel tool shown fmt c3 args parsed ct out c4
                        show ?thesis
                          by (simp add: turn_def spec_turn_def io_defs calls_def Let_def)
                      qed
                    qed
                  qed
                qed
              qed
            qed
          qed
        qed
      qed
    qed
  qed
qed

subsection \<open>The calls of a turn and of a run\<close>

lemma turn_returns:
  assumes "turn L goal tb k w = (Inr flag, w')"
  shows "\<exists>thought schema action tool args_format args kwargs out reply s1 s2 s3.
           chat L (session w) thought_prompt NoFormat = (Inr thought, s1)
         \<and> tool_name_schema tb = Inr schema
         \<and> chat L s1 action_prompt schema = (Inr action, s2)
         \<and> get_tool_from_schema L tb action = Inr (Some tool)
         \<and> args_schema L tool = Inr args_format
         \<and> chat L s2 args_prompt args_format = (Inr args, s3)
         \<and> json_loads L args = Inr (JObj kwargs)
         \<and> fn_call (fn tool) kwargs = Inr out
         \<and> chat L (ctx_add L s3 \<lparr>msg_role = ''tool'', msg_content = out\<rparr>)
                (done_prompt goal) is_done_model = (Inr reply, session w')
         \<and> is_done_of L reply = Inr flag
         \<and> calls (trace w') = calls (trace w)
              @ [EChat thought_prompt NoFormat (Inr thought),
                 EChat action_prompt schema (Inr action),
                 EChat args_prompt args_format (Inr args),
                 ECallTool tool args (Inr out),
                 ECtxAdd \<lparr>msg_role = ''tool'', msg_content = out\<rparr>,
                 EChat (done_prompt goal) is_done_model (Inr reply)]"
proof -
  from assms [unfolded turn_def]
  obtain w1 w2 thought w3 w4 w5 schema w6 action w7 selected w8 tool w9 shown w9a w10 w11
      args_format w11a args w12 parsed w13 w14 w15 out w16 w17 w18 w19 reply w20
    where p1: "io_print (''## ReACT TURN NUMBER '' @ str_nat k) w = (Inr (), w1)"
      and p2: "io_print ''### Thought'' w1 = (Inr (), w2)"
      and c1: "io_chat L thought_prompt NoFormat w2 = (Inr thought, w3)"
      and p3: "io_print thought w3 = (Inr (), w4)"
      and p4: "io_print ''### Action'' w4 = (Inr (), w5)"
      and l1: "io_lift (tool_name_schema tb) w5 = (Inr schema, w6)"
      and c2: "io_chat L action_prompt schema w6 = (Inr action, w7)"
      and l2: "io_lift (get_tool_from_schema L tb action) w7 = (Inr selected, w8)"
      and l3: "io_lift (case selected of None \<Rightarrow> Inl AttributeError | Some t \<Rightarrow> Inr t) w8
                 = (Inr tool, w9)"
      and l3a: "io_lift (get_name tool) w9 = (Inr shown, w9a)"
      and p5: "io_print shown w9a = (Inr (), w10)"
      and p6: "io_print ''### Arguments for action'' w10 = (Inr (), w11)"
      and l3b: "io_lift (args_schema L tool) w11 = (Inr args_format, w11a)"
      and c3: "io_chat L args_prompt args_format w11a = (Inr args, w12)"
      and l4: "io_lift (json_loads L args) w12 = (Inr parsed, w13)"
      and p7: "io_print (''```json\<newline>'' @ json_dumps L parsed @ ''\<newline>```'') w13 = (Inr (), w14)"
      and p8: "io_print ''### Observation'' w14 = (Inr (), w15)"
      and t1: "io_call_tool L tool args w15 = (Inr out, w16)"
      and a1: "io_ctx_add L \<lparr>msg_role = ''tool'', msg_content = out\<rparr> w16 = (Inr (), w17)"
      and p9: "io_print out w17 = (Inr (), w18)"
      and p10: "io_print ''### Done Check'' w18 = (Inr (), w19)"
      and c4: "io_chat L (done_prompt goal) is_done_model w19 = (Inr reply, w20)"
      and l5: "io_lift (is_done_of L reply) w20 = (Inr flag, w')"
    by (elim io_bind_Inr io_then_Inr)
  note steps = io_print_Inr [OF p1] io_print_Inr [OF p2] io_chat_Inr [OF c1] io_print_Inr [OF p3]
      io_print_Inr [OF p4] io_lift_Inr [OF l1] io_chat_Inr [OF c2] io_lift_Inr [OF l2]
      io_lift_Inr [OF l3] io_lift_Inr [OF l3a] io_print_Inr [OF p5] io_print_Inr [OF p6]
      io_lift_Inr [OF l3b] io_chat_Inr [OF c3] io_lift_Inr [OF l4] io_print_Inr [OF p7]
      io_print_Inr [OF p8] io_call_tool_Inr [OF t1] io_ctx_add_Inr [OF a1] io_print_Inr [OF p9]
      io_print_Inr [OF p10] io_chat_Inr [OF c4] io_lift_Inr [OF l5]
  have sel: "get_tool_from_schema L tb action = Inr (Some tool)"
    using io_lift_Inr [OF l2] io_lift_Inr [OF l3] by (auto split: option.splits)
  obtain kwargs where kw: "json_loads L args = Inr (JObj kwargs)"
    and fc: "fn_call (fn tool) kwargs = Inr out"
    using io_call_tool_Inr [OF t1] by (auto simp: call_tool_Inr)
  have k1: "chat L (session w) thought_prompt NoFormat = (Inr thought, session w3)"
    using steps by (simp add: trace_emit)
  have k2: "chat L (session w3) action_prompt schema = (Inr action, session w7)"
    using steps by (simp add: trace_emit)
  have k3: "chat L (session w7) args_prompt args_format = (Inr args, session w12)"
    using steps by (simp add: trace_emit)
  have k4: "chat L (ctx_add L (session w12) \<lparr>msg_role = ''tool'', msg_content = out\<rparr>)
                (done_prompt goal) is_done_model = (Inr reply, session w')"
    using steps by (simp add: trace_emit)
  have tr: "trace w' = trace w
      @ [EPrint (''## ReACT TURN NUMBER '' @ str_nat k), EPrint ''### Thought'',
         EChat thought_prompt NoFormat (Inr thought), EPrint thought, EPrint ''### Action'',
         EChat action_prompt schema (Inr action), EPrint shown,
         EPrint ''### Arguments for action'',
         EChat args_prompt args_format (Inr args),
         EPrint (''```json\<newline>'' @ json_dumps L parsed @ ''\<newline>```''),
         EPrint ''### Observation'', ECallTool tool args (Inr out),
         ECtxAdd \<lparr>msg_role = ''tool'', msg_content = out\<rparr>, EPrint out,
         EPrint ''### Done Check'', EChat (done_prompt goal) is_done_model (Inr reply)]"
    using steps by (simp add: trace_emit)
  have body: "chat L (session w) thought_prompt NoFormat = (Inr thought, session w3)
         \<and> tool_name_schema tb = Inr schema
         \<and> chat L (session w3) action_prompt schema = (Inr action, session w7)
         \<and> get_tool_from_schema L tb action = Inr (Some tool)
         \<and> args_schema L tool = Inr args_format
         \<and> chat L (session w7) args_prompt args_format = (Inr args, session w12)
         \<and> json_loads L args = Inr (JObj kwargs)
         \<and> fn_call (fn tool) kwargs = Inr out
         \<and> chat L (ctx_add L (session w12) \<lparr>msg_role = ''tool'', msg_content = out\<rparr>)
                (done_prompt goal) is_done_model = (Inr reply, session w')
         \<and> is_done_of L reply = Inr flag
         \<and> calls (trace w') = calls (trace w)
              @ [EChat thought_prompt NoFormat (Inr thought),
                 EChat action_prompt schema (Inr action),
                 EChat args_prompt args_format (Inr args),
                 ECallTool tool args (Inr out),
                 ECtxAdd \<lparr>msg_role = ''tool'', msg_content = out\<rparr>,
                 EChat (done_prompt goal) is_done_model (Inr reply)]"
    using k1 k2 k3 k4 sel kw fc tr io_lift_Inr [OF l1] io_lift_Inr [OF l3b] io_lift_Inr [OF l5]
    by (simp add: calls_def)
  show ?thesis
    by (rule exI [of _ thought], rule exI [of _ schema], rule exI [of _ action],
        rule exI [of _ tool], rule exI [of _ args_format], rule exI [of _ args],
        rule exI [of _ kwargs], rule exI [of _ out], rule exI [of _ reply],
        rule exI [of _ "session w3"], rule exI [of _ "session w7"],
        rule exI [of _ "session w12"]) (rule body)
qed

lemma turn_calls:
  assumes "turn L goal tb k w = (Inr flag, w')"
  shows "\<exists>d. calls (trace w') = calls (trace w) @ turn_operations L goal tb d
           \<and> turn_ok L tb d \<and> is_done_of L (td_reply d) = Inr flag"
proof -
  from turn_returns [OF assms]
  obtain thought schema action tool args_format args kwargs out reply
    where sch: "tool_name_schema tb = Inr schema"
      and sel: "get_tool_from_schema L tb action = Inr (Some tool)"
      and fmt: "args_schema L tool = Inr args_format"
      and kw: "json_loads L args = Inr (JObj kwargs)"
      and fc: "fn_call (fn tool) kwargs = Inr out"
      and fl: "is_done_of L reply = Inr flag"
      and tr: "calls (trace w') = calls (trace w)
              @ [EChat thought_prompt NoFormat (Inr thought),
                 EChat action_prompt schema (Inr action),
                 EChat args_prompt args_format (Inr args),
                 ECallTool tool args (Inr out),
                 ECtxAdd \<lparr>msg_role = ''tool'', msg_content = out\<rparr>,
                 EChat (done_prompt goal) is_done_model (Inr reply)]"
    by (elim exE conjE)
  show ?thesis
    apply (rule exI [of _ "\<lparr>td_thought = thought, td_action = action, td_tool = tool,
        td_args = args, td_output = out, td_reply = reply\<rparr>"])
    using sch sel fmt kw fc fl tr
    by (simp add: turn_operations_def turn_ok_def schema_of_def)
qed

lemma final_answer_Inr:
  assumes "final_answer L goal w = (Inr answer, w')"
  shows "calls (trace w') = calls (trace w) @ [EChat (final_prompt goal) NoFormat (Inr answer)]"
proof -
  from assms [unfolded final_answer_def]
  obtain w1 where p: "io_print ''Done. Will summarize and return output now.'' w = (Inr (), w1)"
    and c: "io_chat L (final_prompt goal) NoFormat w1 = (Inr answer, w')"
    by (elim io_then_Inr)
  from io_print_Inr [OF p] io_chat_Inr [OF c] show ?thesis
    by (simp add: calls_def trace_emit)
qed

lemma calls_not_done: "calls (trace (snd (io_print line w))) = calls (trace w)"
  by (simp add: io_print_def calls_def trace_emit)

lemma run_shape_last:
  assumes t: "calls (trace w1) = calls (trace w) @ turn_operations L goal tb d"
    and ok: "turn_ok L tb d" and fl: "is_done_of L (td_reply d) = Inr True"
    and f: "calls (trace w2) = calls (trace w1) @ [EChat (final_prompt goal) NoFormat (Inr answer)]"
  shows "run_shape L goal tb k w (Inr (Some answer), w2, k + 1)"
  unfolding run_shape_def
proof (intro allI impI)
  fix r w' k'
  assume "(Inr (Some answer), w2, k + 1) = (Inr r, w', k')"
  then have e: "r = Some answer" "w' = w2" "k' = k + 1" by simp_all
  show "\<exists>ds answer. ds \<noteq> [] \<and> k' = k + length ds \<and> r = Some answer
           \<and> calls (trace w') = calls (trace w) @ concat (map (turn_operations L goal tb) ds)
                @ [EChat (final_prompt goal) NoFormat (Inr answer)]
           \<and> (\<forall>d \<in> set ds. turn_ok L tb d)
           \<and> (\<forall>d \<in> set (butlast ds). is_done_of L (td_reply d) = Inr False)
           \<and> is_done_of L (td_reply (last ds)) = Inr True"
    apply (rule exI [of _ "[d]"], rule exI [of _ answer])
    using e t ok fl f by simp
qed

lemma run_shape_step:
  assumes t: "calls (trace w1) = calls (trace w) @ turn_operations L goal tb d"
    and ok: "turn_ok L tb d" and fl: "is_done_of L (td_reply d) = Inr False"
    and n: "calls (trace w2) = calls (trace w1)"
    and rest: "run_shape L goal tb (k + 1) w2 y"
  shows "run_shape L goal tb k w y"
  unfolding run_shape_def
proof (intro allI impI)
  fix r w' k'
  assume y: "y = (Inr r, w', k')"
  from rest [unfolded run_shape_def, rule_format, OF y]
  obtain ds answer where ds: "ds \<noteq> []" "k' = k + 1 + length ds" "r = Some answer"
    and tr: "calls (trace w') = calls (trace w2) @ concat (map (turn_operations L goal tb) ds)
                @ [EChat (final_prompt goal) NoFormat (Inr answer)]"
    and oks: "\<forall>d \<in> set ds. turn_ok L tb d"
    and nd: "\<forall>d \<in> set (butlast ds). is_done_of L (td_reply d) = Inr False"
    and la: "is_done_of L (td_reply (last ds)) = Inr True"
    by (elim exE conjE)
  show "\<exists>ds answer. ds \<noteq> [] \<and> k' = k + length ds \<and> r = Some answer
           \<and> calls (trace w') = calls (trace w) @ concat (map (turn_operations L goal tb) ds)
                @ [EChat (final_prompt goal) NoFormat (Inr answer)]
           \<and> (\<forall>d \<in> set ds. turn_ok L tb d)
           \<and> (\<forall>d \<in> set (butlast ds). is_done_of L (td_reply d) = Inr False)
           \<and> is_done_of L (td_reply (last ds)) = Inr True"
    apply (rule exI [of _ "d # ds"], rule exI [of _ answer])
    using ds tr oks nd la t ok fl n by simp
qed

lemma react_loop_shape:
  assumes "react_loop L goal tb done k w = Some y"
  shows "\<not> done \<longrightarrow> run_shape L goal tb k w y"
proof (rule react_loop.raw_induct
    [where P = "\<lambda>L goal tb done k w y. \<not> done \<longrightarrow> run_shape L goal tb k w y", OF _ assms])
  fix f :: "'a library \<Rightarrow> string \<Rightarrow> react_toolbox \<Rightarrow> bool \<Rightarrow> nat \<Rightarrow> 'a world
              \<Rightarrow> ((exn + string option) \<times> 'a world \<times> nat) option"
    and L goal tb dn k w y
  assume IH: "\<And>L goal tb done k w y.
      f L goal tb done k w = Some y \<Longrightarrow> \<not> done \<longrightarrow> run_shape L goal tb k w y"
  assume body: "(if \<not> dn then
        (case turn L goal tb (k + 1) w of
           (Inl e, w') \<Rightarrow> Some (Inl e, w', k + 1)
         | (Inr is_done, w') \<Rightarrow>
             if is_done then
               (case final_answer L goal w' of
                  (Inl e, w'') \<Rightarrow> Some (Inl e, w'', k + 1)
                | (Inr answer, w'') \<Rightarrow> Some (Inr (Some answer), w'', k + 1))
             else f L goal tb False (k + 1) (snd (io_print ''Not done.'' w')))
      else Some (Inr None, w, k)) = Some y"
  show "\<not> dn \<longrightarrow> run_shape L goal tb k w y"
  proof
    assume nd: "\<not> dn"
    obtain res w1 where t: "turn L goal tb (k + 1) w = (res, w1)"
      by (cases "turn L goal tb (k + 1) w")
    show "run_shape L goal tb k w y"
    proof (cases res)
      case (Inl e)
      with body nd t have "y = (Inl e, w1, k + 1)" by simp
      then show ?thesis by (simp add: run_shape_def)
    next
      case (Inr flag)
      from turn_calls [OF t [unfolded Inr]]
      obtain d where tc: "calls (trace w1) = calls (trace w) @ turn_operations L goal tb d"
        and ok: "turn_ok L tb d" and fl: "is_done_of L (td_reply d) = Inr flag"
        by (elim exE conjE)
      show ?thesis
      proof (cases flag)
        case True
        obtain res2 w2 where fa: "final_answer L goal w1 = (res2, w2)"
          by (cases "final_answer L goal w1")
        show ?thesis
        proof (cases res2)
          case (Inl e)
          with body nd t Inr True fa have "y = (Inl e, w2, k + 1)" by simp
          then show ?thesis by (simp add: run_shape_def)
        next
          case (Inr answer)
          with body nd t \<open>res = Inr flag\<close> True fa
          have y: "y = (Inr (Some answer), w2, k + 1)" by simp
          from fl True have fl': "is_done_of L (td_reply d) = Inr True" by simp
          show ?thesis unfolding y
            by (rule run_shape_last [OF tc ok fl' final_answer_Inr [OF fa [unfolded Inr]]])
        qed
      next
        case False
        with body nd t Inr
        have "f L goal tb False (k + 1) (snd (io_print ''Not done.'' w1)) = Some y" by simp
        from IH [OF this]
        have rest: "run_shape L goal tb (k + 1) (snd (io_print ''Not done.'' w1)) y" by simp
        from fl False have fl': "is_done_of L (td_reply d) = Inr False" by simp
        show ?thesis
          by (rule run_shape_step [OF tc ok fl' calls_not_done rest])
      qed
    qed
  qed
qed

lemma react_setup_stale:
  assumes "\<not> fresh_context (view_for_generation L m)"
  shows "react_setup L goal tb \<lparr>session = m, trace = []\<rparr>
         = (Inl (AssertionError ''ReACT expects a fresh context.''),
            \<lparr>session = m, trace = [EView (view_for_generation L m)]\<rparr>)"
  using assms by (simp add: react_setup_def io_defs Let_def)

lemma react_setup_fresh:
  assumes "fresh_context (view_for_generation L m)"
  shows "react_setup L goal tb \<lparr>session = m, trace = []\<rparr>
         = (case render L (tools tb) of
              Inl e \<Rightarrow> (Inl e, \<lparr>session = m,
                                trace = [EView (view_for_generation L m), ERender (Inl e)]\<rparr>)
            | Inr p \<Rightarrow>
                (Inr (),
                 \<lparr>session = ctx_add L (ctx_add L m \<lparr>msg_role = ''system'', msg_content = p\<rparr>)
                              \<lparr>msg_role = ''user'', msg_content = goal\<rparr>,
                  trace = [EView (view_for_generation L m), ERender (Inr p),
                           ECtxAdd \<lparr>msg_role = ''system'', msg_content = p\<rparr>,
                           ECtxAdd \<lparr>msg_role = ''user'', msg_content = goal\<rparr>]\<rparr>))"
  using assms by (simp add: react_setup_def io_defs Let_def split: sum.splits)

lemma fresh_context_iff: "fresh_context v = (v = Some [])"
  by (cases v) (auto simp: fresh_context_def)

lemma react_shape:
  assumes "react L m goal sd tb = Some (Inr r, w, k)"
  shows "\<exists>p ds answer. view_for_generation L m = Some [] \<and> render L (tools tb) = Inr p
           \<and> r = Some answer \<and> ds \<noteq> [] \<and> k = length ds
           \<and> calls (trace w) =
               [EView (Some []), ERender (Inr p),
                ECtxAdd \<lparr>msg_role = ''system'', msg_content = p\<rparr>,
                ECtxAdd \<lparr>msg_role = ''user'', msg_content = goal\<rparr>]
               @ concat (map (turn_operations L goal tb) ds)
               @ [EChat (final_prompt goal) NoFormat (Inr answer)]
           \<and> (\<forall>d \<in> set ds. turn_ok L tb d)
           \<and> (\<forall>d \<in> set (butlast ds). is_done_of L (td_reply d) = Inr False)
           \<and> is_done_of L (td_reply (last ds)) = Inr True"
proof (cases "fresh_context (view_for_generation L m)")
  case False
  from assms show ?thesis
    by (simp add: react_def react_setup_stale [OF False])
next
  case True
  then have v: "view_for_generation L m = Some []"
    by (simp add: fresh_context_iff)
  show ?thesis
  proof (cases "render L (tools tb)")
    case (Inl e)
    with assms show ?thesis
      by (simp add: react_def react_setup_fresh [OF True])
  next
    case (Inr p)
    let ?w0 = "\<lparr>session = ctx_add L (ctx_add L m \<lparr>msg_role = ''system'', msg_content = p\<rparr>)
                              \<lparr>msg_role = ''user'', msg_content = goal\<rparr>,
                  trace = [EView (Some []), ERender (Inr p),
                           ECtxAdd \<lparr>msg_role = ''system'', msg_content = p\<rparr>,
                           ECtxAdd \<lparr>msg_role = ''user'', msg_content = goal\<rparr>]\<rparr>"
    from assms have l: "react_loop L goal tb False 0 ?w0 = Some (Inr r, w, k)"
      by (simp add: react_def react_setup_fresh [OF True] Inr v)
    from react_loop_shape [OF l] have "run_shape L goal tb 0 ?w0 (Inr r, w, k)"
      by simp
    from this [unfolded run_shape_def, rule_format, OF refl]
    obtain ds answer where ds: "ds \<noteq> []" "k = 0 + length ds" "r = Some answer"
      and tr: "calls (trace w) = calls (trace ?w0) @ concat (map (turn_operations L goal tb) ds)
                @ [EChat (final_prompt goal) NoFormat (Inr answer)]"
      and oks: "\<forall>d \<in> set ds. turn_ok L tb d"
      and nd: "\<forall>d \<in> set (butlast ds). is_done_of L (td_reply d) = Inr False"
      and la: "is_done_of L (td_reply (last ds)) = Inr True"
      by (elim exE conjE)
    have c0: "calls (trace ?w0) = trace ?w0"
      by (simp add: calls_def)
    show ?thesis
      apply (rule exI [of _ p], rule exI [of _ ds], rule exI [of _ answer])
      using v Inr ds tr oks nd la c0 by simp
  qed
qed

lemma two_elements: "length ds = 2 \<Longrightarrow> ds = [hd ds, last ds]"
  by (cases ds; cases "tl ds") auto

lemma no_render_in_turns:
  "filter (\<lambda>ev. \<exists>r. ev = ERender r) (concat (map (turn_operations L goal tb) ds)) = []"
  by (induction ds) (simp_all add: turn_operations_def)

subsection \<open>Runs of the example backends\<close>

lemma script_loop:
  "\<exists>w'. react_loop script_lib goal demo_toolbox False k
       \<lparr>session = \<lparr>ctx = c, replies = long_script n\<rparr>, trace = tr\<rparr>
     = Some (Inr (Some ''The high is 78.''), w', k + n + 1)"
proof (induction n arbitrary: k c tr)
  case 0
  obtain c1 tr1 where t: "turn script_lib goal demo_toolbox (Suc k)
       \<lparr>session = \<lparr>ctx = c, replies = done_turn @ [''The high is 78.'']\<rparr>, trace = tr\<rparr>
     = (Inr True, \<lparr>session = \<lparr>ctx = c1, replies = [''The high is 78.'']\<rparr>, trace = tr1\<rparr>)"
    using script_done_turn [of goal "Suc k" c "[''The high is 78.'']" tr] by (elim exE)
  obtain c2 tr2 where f: "final_answer script_lib goal
       \<lparr>session = \<lparr>ctx = c1, replies = [''The high is 78.'']\<rparr>, trace = tr1\<rparr>
     = (Inr ''The high is 78.'', \<lparr>session = \<lparr>ctx = c2, replies = []\<rparr>, trace = tr2\<rparr>)"
    using script_final [of goal c1 "''The high is 78.''" tr1] by (elim exE)
  show ?case
    by (subst react_loop.simps) (simp add: long_script_def t f)
next
  case (Suc n)
  obtain c1 tr1 where t: "turn script_lib goal demo_toolbox (Suc k)
       \<lparr>session = \<lparr>ctx = c, replies = not_done_turn @ long_script n\<rparr>, trace = tr\<rparr>
     = (Inr False, \<lparr>session = \<lparr>ctx = c1, replies = long_script n\<rparr>, trace = tr1\<rparr>)"
    using script_not_done_turn [of goal "Suc k" c "long_script n" tr] by (elim exE)
  have l: "long_script (Suc n) = not_done_turn @ long_script n"
    by (simp add: long_script_def)
  from Suc.IH [of "Suc k" c1 "tr1 @ [EPrint ''Not done.'']"]
  obtain w' where "react_loop script_lib goal demo_toolbox False (Suc k)
       \<lparr>session = \<lparr>ctx = c1, replies = long_script n\<rparr>, trace = tr1 @ [EPrint ''Not done.'']\<rparr>
     = Some (Inr (Some ''The high is 78.''), w', Suc k + n + 1)"
    by (elim exE)
  then show ?case
    by (subst react_loop.simps) (simp add: l t io_print_def emit_def)
qed

lemma script_react:
  "\<exists>w'. react script_lib \<lparr>ctx = [], replies = long_script n\<rparr> goal sd demo_toolbox
     = Some (Inr (Some ''The high is 78.''), w', n + 1)"
proof -
  have v: "fresh_context (view_for_generation script_lib \<lparr>ctx = [], replies = long_script n\<rparr>)"
    by (simp add: script_lib_def fresh_context_def)
  have r: "\<exists>p. render script_lib (tools demo_toolbox) = Inr p"
    by (simp add: script_lib_def demo_tools demo_get_name)
  then obtain p where p: "render script_lib (tools demo_toolbox) = Inr p" by (elim exE)
  from script_loop [of goal 0 _ n]
  show ?thesis
    by (simp add: react_def react_setup_fresh [OF v] p script_ctx_add)
qed

lemma stubborn_loop_returns_nothing:
  assumes "react_loop L goal tb dn k w = Some y"
  shows "\<not> (L = stubborn_lib \<and> tb = demo_toolbox \<and> \<not> dn)"
proof (rule react_loop.raw_induct
    [where P = "\<lambda>L goal tb dn k w y. \<not> (L = stubborn_lib \<and> tb = demo_toolbox \<and> \<not> dn)",
      OF _ assms])
  fix f :: "unit library \<Rightarrow> string \<Rightarrow> react_toolbox \<Rightarrow> bool \<Rightarrow> nat \<Rightarrow> unit world
              \<Rightarrow> ((exn + string option) \<times> unit world \<times> nat) option"
    and L goal tb dn k w y
  assume IH: "\<And>L goal tb dn k w y.
      f L goal tb dn k w = Some y \<Longrightarrow> \<not> (L = stubborn_lib \<and> tb = demo_toolbox \<and> \<not> dn)"
  assume body: "(if \<not> dn then
        (case turn L goal tb (k + 1) w of
           (Inl e, w') \<Rightarrow> Some (Inl e, w', k + 1)
         | (Inr is_done, w') \<Rightarrow>
             if is_done then
               (case final_answer L goal w' of
                  (Inl e, w'') \<Rightarrow> Some (Inl e, w'', k + 1)
                | (Inr answer, w'') \<Rightarrow> Some (Inr (Some answer), w'', k + 1))
             else f L goal tb False (k + 1) (snd (io_print ''Not done.'' w')))
      else Some (Inr None, w, k)) = Some y"
  show "\<not> (L = stubborn_lib \<and> tb = demo_toolbox \<and> \<not> dn)"
  proof
    assume a: "L = stubborn_lib \<and> tb = demo_toolbox \<and> \<not> dn"
    obtain w1 where t: "turn stubborn_lib goal demo_toolbox (k + 1) w = (Inr False, w1)"
      using stubborn_turn [of goal "k + 1" w] by (elim exE)
    from body a t
    have "f stubborn_lib goal demo_toolbox False (k + 1) (snd (io_print ''Not done.'' w1)) = Some y"
      by simp
    from IH [OF this] show False by simp
  qed
qed

lemma stubborn_react: "react stubborn_lib () goal sd demo_toolbox = None"
proof -
  have v: "fresh_context (view_for_generation stubborn_lib ())"
    by (simp add: stubborn_lib_def fresh_context_def)
  have p: "render stubborn_lib (tools demo_toolbox) = Inr []"
    by (simp add: stubborn_lib_def)
  have "react_loop stubborn_lib goal demo_toolbox False 0 w = None" for w
    using stubborn_loop_returns_nothing [of stubborn_lib goal demo_toolbox False 0 w]
    by (cases "react_loop stubborn_lib goal demo_toolbox False 0 w") auto
  then show ?thesis
    by (simp add: react_def react_setup_fresh [OF v] p)
qed

lemma count_long_script: "count_list (long_script n) say_not_done = n"
proof -
  have a: "count_list not_done_turn say_not_done = 1"
    by (simp add: not_done_turn_def say_not_done_def pick_zip_def args_city_def)
  have b: "count_list (done_turn @ [''The high is 78.'']) say_not_done = 0"
    by (simp add: done_turn_def say_not_done_def pick_weather_def args_zip_def say_done_def)
  have c: "count_list (concat (replicate n not_done_turn)) say_not_done = n"
    by (induction n) (simp_all add: a)
  from b c show ?thesis
    by (simp add: long_script_def)
qed

lemma script_capitalize: "capitalize script_lib n = n"
  by (simp add: script_lib_def)

lemma script_failed_turn:
  "spec_turn script_lib goal tb \<lparr>ctx = [], replies = []\<rparr>
     = (Inl (External ''no reply''), \<lparr>ctx = [], replies = []\<rparr>,
        [EChat thought_prompt NoFormat (Inl (External ''no reply''))])"
  by (simp add: spec_turn_def script_lib_def)

subsection \<open>The fresh-context assertion\<close>

text \<open>
  Claim C8. \<^verbatim>\<open>react\<close> requires a fresh context. When
  \<^verbatim>\<open>m.ctx.view_for_generation()\<close> is \<^verbatim>\<open>None\<close> or a non-empty list, \<^verbatim>\<open>react\<close>
  raises the assertion error "ReACT expects a fresh context." with the session
  unchanged and a trace that holds the read of the view and nothing else: no chat
  request, no rendering, no turn. When the view is the empty list the assertion
  passes: the run goes on to render the system prompt and, when that succeeds, to
  add the two messages and enter the loop.
\<close>

theorem react_requires_fresh_context:
  "((view_for_generation L m = None
      \<or> (\<exists>msgs. view_for_generation L m = Some msgs \<and> msgs \<noteq> []))
    \<longrightarrow> react L m goal sd tb
        = Some (Inl (AssertionError ''ReACT expects a fresh context.''),
                \<lparr>session = m, trace = [EView (view_for_generation L m)]\<rparr>, 0))
   \<and> (view_for_generation L m = Some []
    \<longrightarrow> fresh_context (view_for_generation L m)
        \<and> react L m goal sd tb
          = (case render L (tools tb) of
               Inl e \<Rightarrow> Some (Inl e, \<lparr>session = m, trace = [EView (Some []), ERender (Inl e)]\<rparr>, 0)
             | Inr p \<Rightarrow>
                 react_loop L goal tb False 0
                   \<lparr>session = ctx_add L (ctx_add L m \<lparr>msg_role = ''system'', msg_content = p\<rparr>)
                                \<lparr>msg_role = ''user'', msg_content = goal\<rparr>,
                    trace = [EView (Some []), ERender (Inr p),
                             ECtxAdd \<lparr>msg_role = ''system'', msg_content = p\<rparr>,
                             ECtxAdd \<lparr>msg_role = ''user'', msg_content = goal\<rparr>]\<rparr>))"
proof (intro conjI impI)
  assume "view_for_generation L m = None
      \<or> (\<exists>msgs. view_for_generation L m = Some msgs \<and> msgs \<noteq> [])"
  then have "\<not> fresh_context (view_for_generation L m)"
    by (auto simp: fresh_context_iff)
  then show "react L m goal sd tb
        = Some (Inl (AssertionError ''ReACT expects a fresh context.''),
                \<lparr>session = m, trace = [EView (view_for_generation L m)]\<rparr>, 0)"
    by (simp add: react_def react_setup_stale)
next
  assume v: "view_for_generation L m = Some []"
  then show f: "fresh_context (view_for_generation L m)"
    by (simp add: fresh_context_iff)
  show "react L m goal sd tb
          = (case render L (tools tb) of
               Inl e \<Rightarrow> Some (Inl e, \<lparr>session = m, trace = [EView (Some []), ERender (Inl e)]\<rparr>, 0)
             | Inr p \<Rightarrow>
                 react_loop L goal tb False 0
                   \<lparr>session = ctx_add L (ctx_add L m \<lparr>msg_role = ''system'', msg_content = p\<rparr>)
                                \<lparr>msg_role = ''user'', msg_content = goal\<rparr>,
                    trace = [EView (Some []), ERender (Inr p),
                             ECtxAdd \<lparr>msg_role = ''system'', msg_content = p\<rparr>,
                             ECtxAdd \<lparr>msg_role = ''user'', msg_content = goal\<rparr>]\<rparr>)"
    by (simp add: react_def react_setup_fresh [OF f] v split: sum.splits)
qed

theorem react_requires_fresh_context_witness:
  "react script_lib \<lparr>ctx = [\<lparr>msg_role = ''user'', msg_content = ''hello''\<rparr>], replies = []\<rparr>
       demo_goal None demo_toolbox
     = Some (Inl (AssertionError ''ReACT expects a fresh context.''),
             \<lparr>session = \<lparr>ctx = [\<lparr>msg_role = ''user'', msg_content = ''hello''\<rparr>], replies = []\<rparr>,
              trace = [EView (Some [\<lparr>msg_role = ''user'', msg_content = ''hello''\<rparr>])]\<rparr>, 0)
   \<and> react (script_lib\<lparr>view_for_generation := (\<lambda>s. None)\<rparr>) \<lparr>ctx = [], replies = []\<rparr>
       demo_goal None demo_toolbox
     = Some (Inl (AssertionError ''ReACT expects a fresh context.''),
             \<lparr>session = \<lparr>ctx = [], replies = []\<rparr>, trace = [EView None]\<rparr>, 0)
   \<and> view_for_generation script_lib \<lparr>ctx = [], replies = []\<rparr> = Some []
   \<and> fresh_context (view_for_generation script_lib \<lparr>ctx = [], replies = []\<rparr>)
   \<and> react script_lib \<lparr>ctx = [], replies = []\<rparr> demo_goal None demo_toolbox
     = react_loop script_lib demo_goal demo_toolbox False 0
         \<lparr>session = \<lparr>ctx = [\<lparr>msg_role = ''system'',
                                msg_content = '' * Zip Code Lookup * Get the weather''\<rparr>,
                               \<lparr>msg_role = ''user'', msg_content = demo_goal\<rparr>],
                       replies = []\<rparr>,
          trace = [EView (Some []), ERender (Inr '' * Zip Code Lookup * Get the weather''),
                   ECtxAdd \<lparr>msg_role = ''system'',
                            msg_content = '' * Zip Code Lookup * Get the weather''\<rparr>,
                   ECtxAdd \<lparr>msg_role = ''user'', msg_content = demo_goal\<rparr>]\<rparr>"
proof -
  let ?stale = "\<lparr>ctx = [\<lparr>msg_role = ''user'', msg_content = ''hello''\<rparr>], replies = []\<rparr>"
  let ?empty = "\<lparr>ctx = [], replies = []\<rparr>"
  have a: "view_for_generation script_lib ?stale
      = Some [\<lparr>msg_role = ''user'', msg_content = ''hello''\<rparr>]"
    by (simp add: script_lib_def)
  have b: "view_for_generation (script_lib\<lparr>view_for_generation := (\<lambda>s. None)\<rparr>) ?empty = None"
    by simp
  have c: "view_for_generation script_lib ?empty = Some []"
    by (simp add: script_lib_def)
  have r: "render script_lib (tools demo_toolbox) = Inr '' * Zip Code Lookup * Get the weather''"
    by (simp add: script_lib_def demo_tools demo_get_name)
  from react_requires_fresh_context [of script_lib ?stale demo_goal None demo_toolbox,
      THEN conjunct1, rule_format] a
  have s1: "react script_lib ?stale demo_goal None demo_toolbox
     = Some (Inl (AssertionError ''ReACT expects a fresh context.''),
             \<lparr>session = ?stale,
              trace = [EView (Some [\<lparr>msg_role = ''user'', msg_content = ''hello''\<rparr>])]\<rparr>, 0)"
    by simp
  from react_requires_fresh_context
      [of "script_lib\<lparr>view_for_generation := (\<lambda>s. None)\<rparr>" ?empty demo_goal None demo_toolbox,
      THEN conjunct1, rule_format] b
  have s2: "react (script_lib\<lparr>view_for_generation := (\<lambda>s. None)\<rparr>) ?empty
       demo_goal None demo_toolbox
     = Some (Inl (AssertionError ''ReACT expects a fresh context.''),
             \<lparr>session = ?empty, trace = [EView None]\<rparr>, 0)"
    by simp
  from react_requires_fresh_context [of script_lib ?empty demo_goal None demo_toolbox,
      THEN conjunct2, rule_format, OF c]
  have s3: "fresh_context (view_for_generation script_lib ?empty)
    \<and> react script_lib ?empty demo_goal None demo_toolbox
     = react_loop script_lib demo_goal demo_toolbox False 0
         \<lparr>session = \<lparr>ctx = [\<lparr>msg_role = ''system'',
                                msg_content = '' * Zip Code Lookup * Get the weather''\<rparr>,
                               \<lparr>msg_role = ''user'', msg_content = demo_goal\<rparr>],
                       replies = []\<rparr>,
          trace = [EView (Some []), ERender (Inr '' * Zip Code Lookup * Get the weather''),
                   ECtxAdd \<lparr>msg_role = ''system'',
                            msg_content = '' * Zip Code Lookup * Get the weather''\<rparr>,
                   ECtxAdd \<lparr>msg_role = ''user'', msg_content = demo_goal\<rparr>]\<rparr>"
    by (simp add: r script_ctx_add)
  from s1 s2 c s3 show ?thesis by simp
qed

subsection \<open>The operations of a turn\<close>

text \<open>
  Claim C3. Every turn of \<^verbatim>\<open>react\<close> performs the operations of the specification's
  list, in its order, and the system prompt is built once before the first turn.

  For every turn, however it ends, the outcome, the session it leaves and the calls
  it made are those of \<open>spec_turn\<close>, which is written from the list: a turn ended by
  an exception made the operations up to the one that raised, that one recorded
  with the exception, and none after it.

  A turn that reaches its done check made exactly these, each on the session the one
  before it left: a chat request asking what to do next; a chat request asking which
  tool to use, with the tool-selection schema, whose reply \<^verbatim>\<open>get_tool_from_schema\<close>
  parses to a tool; a chat request asking for the tool's arguments, with that tool's
  argument schema; the call of the selected tool's function on the arguments that
  \<^verbatim>\<open>json.loads\<close> reads from the reply; the addition of the function's output to
  the chat context as a message of role \<^verbatim>\<open>tool\<close>; and, on the context so extended,
  a chat request asking whether the answer is final, whose parsed reply is the
  turn's flag.

  A run that returns made, in order, the read of the view, one rendering of the
  system prompt, the two additions to the context, the calls of its turns, one after
  the other, and the final chat; the rendering before the first turn is the only one.
\<close>

theorem react_turn_operations:
  "(\<exists>ops. spec_turn L goal tb (session w)
            = (fst (turn L goal tb k w), session (snd (turn L goal tb k w)), ops)
         \<and> calls (trace (snd (turn L goal tb k w))) = calls (trace w) @ ops)
   \<and> (turn L goal tb k w = (Inr flag, w') \<longrightarrow>
      (\<exists>thought schema action tool args_format args kwargs out reply s1 s2 s3.
           chat L (session w) thought_prompt NoFormat = (Inr thought, s1)
         \<and> tool_name_schema tb = Inr schema
         \<and> chat L s1 action_prompt schema = (Inr action, s2)
         \<and> get_tool_from_schema L tb action = Inr (Some tool)
         \<and> args_schema L tool = Inr args_format
         \<and> chat L s2 args_prompt args_format = (Inr args, s3)
         \<and> json_loads L args = Inr (JObj kwargs)
         \<and> fn_call (fn tool) kwargs = Inr out
         \<and> chat L (ctx_add L s3 \<lparr>msg_role = ''tool'', msg_content = out\<rparr>)
                (done_prompt goal) is_done_model = (Inr reply, session w')
         \<and> is_done_of L reply = Inr flag
         \<and> calls (trace w') = calls (trace w)
              @ [EChat thought_prompt NoFormat (Inr thought),
                 EChat action_prompt schema (Inr action),
                 EChat args_prompt args_format (Inr args),
                 ECallTool tool args (Inr out),
                 ECtxAdd \<lparr>msg_role = ''tool'', msg_content = out\<rparr>,
                 EChat (done_prompt goal) is_done_model (Inr reply)]))
   \<and> (react L m goal sd tb = Some (Inr r, w2, n) \<longrightarrow>
      (\<exists>p ds answer. render L (tools tb) = Inr p \<and> length ds = n
         \<and> (\<forall>d \<in> set ds. turn_ok L tb d)
         \<and> calls (trace w2) =
             [EView (Some []), ERender (Inr p),
              ECtxAdd \<lparr>msg_role = ''system'', msg_content = p\<rparr>,
              ECtxAdd \<lparr>msg_role = ''user'', msg_content = goal\<rparr>]
             @ concat (map (turn_operations L goal tb) ds)
             @ [EChat (final_prompt goal) NoFormat (Inr answer)]
         \<and> filter (\<lambda>ev. \<exists>r. ev = ERender r) (calls (trace w2)) = [ERender (Inr p)]))"
proof (intro conjI impI)
  show "\<exists>ops. spec_turn L goal tb (session w)
            = (fst (turn L goal tb k w), session (snd (turn L goal tb k w)), ops)
         \<and> calls (trace (snd (turn L goal tb k w))) = calls (trace w) @ ops"
    by (rule turn_refines)
next
  assume "turn L goal tb k w = (Inr flag, w')"
  then show "\<exists>thought schema action tool args_format args kwargs out reply s1 s2 s3.
           chat L (session w) thought_prompt NoFormat = (Inr thought, s1)
         \<and> tool_name_schema tb = Inr schema
         \<and> chat L s1 action_prompt schema = (Inr action, s2)
         \<and> get_tool_from_schema L tb action = Inr (Some tool)
         \<and> args_schema L tool = Inr args_format
         \<and> chat L s2 args_prompt args_format = (Inr args, s3)
         \<and> json_loads L args = Inr (JObj kwargs)
         \<and> fn_call (fn tool) kwargs = Inr out
         \<and> chat L (ctx_add L s3 \<lparr>msg_role = ''tool'', msg_content = out\<rparr>)
                (done_prompt goal) is_done_model = (Inr reply, session w')
         \<and> is_done_of L reply = Inr flag
         \<and> calls (trace w') = calls (trace w)
              @ [EChat thought_prompt NoFormat (Inr thought),
                 EChat action_prompt schema (Inr action),
                 EChat args_prompt args_format (Inr args),
                 ECallTool tool args (Inr out),
                 ECtxAdd \<lparr>msg_role = ''tool'', msg_content = out\<rparr>,
                 EChat (done_prompt goal) is_done_model (Inr reply)]"
    by (rule turn_returns)
next
  assume "react L m goal sd tb = Some (Inr r, w2, n)"
  from react_shape [OF this]
  obtain p ds answer where p: "render L (tools tb) = Inr p" and n: "n = length ds"
    and oks: "\<forall>d \<in> set ds. turn_ok L tb d"
    and tr: "calls (trace w2) =
             [EView (Some []), ERender (Inr p),
              ECtxAdd \<lparr>msg_role = ''system'', msg_content = p\<rparr>,
              ECtxAdd \<lparr>msg_role = ''user'', msg_content = goal\<rparr>]
             @ concat (map (turn_operations L goal tb) ds)
             @ [EChat (final_prompt goal) NoFormat (Inr answer)]"
    by (elim exE conjE)
  have once: "filter (\<lambda>ev. \<exists>r. ev = ERender r) (calls (trace w2)) = [ERender (Inr p)]"
    unfolding tr by (simp add: no_render_in_turns)
  from p n oks tr once
  have body: "render L (tools tb) = Inr p \<and> length ds = n
         \<and> (\<forall>d \<in> set ds. turn_ok L tb d)
         \<and> calls (trace w2) =
             [EView (Some []), ERender (Inr p),
              ECtxAdd \<lparr>msg_role = ''system'', msg_content = p\<rparr>,
              ECtxAdd \<lparr>msg_role = ''user'', msg_content = goal\<rparr>]
             @ concat (map (turn_operations L goal tb) ds)
             @ [EChat (final_prompt goal) NoFormat (Inr answer)]
         \<and> filter (\<lambda>ev. \<exists>r. ev = ERender r) (calls (trace w2)) = [ERender (Inr p)]"
    by simp
  show "\<exists>p ds answer. render L (tools tb) = Inr p \<and> length ds = n
         \<and> (\<forall>d \<in> set ds. turn_ok L tb d)
         \<and> calls (trace w2) =
             [EView (Some []), ERender (Inr p),
              ECtxAdd \<lparr>msg_role = ''system'', msg_content = p\<rparr>,
              ECtxAdd \<lparr>msg_role = ''user'', msg_content = goal\<rparr>]
             @ concat (map (turn_operations L goal tb) ds)
             @ [EChat (final_prompt goal) NoFormat (Inr answer)]
         \<and> filter (\<lambda>ev. \<exists>r. ev = ERender r) (calls (trace w2)) = [ERender (Inr p)]"
    by (rule exI [of _ p], rule exI [of _ ds], rule exI [of _ answer]) (rule body)
qed

theorem react_turn_operations_witness:
  "(fst (turn script_lib demo_goal demo_toolbox 1
           \<lparr>session = \<lparr>ctx = [], replies = []\<rparr>, trace = []\<rparr>) = Inl (External ''no reply'')
     \<and> calls (trace (snd (turn script_lib demo_goal demo_toolbox 1
           \<lparr>session = \<lparr>ctx = [], replies = []\<rparr>, trace = []\<rparr>)))
         = [EChat thought_prompt NoFormat (Inl (External ''no reply''))])
   \<and> (\<exists>w1. turn script_lib demo_goal demo_toolbox 1
         \<lparr>session = \<lparr>ctx = [], replies = not_done_turn\<rparr>, trace = []\<rparr> = (Inr False, w1)
       \<and> calls (trace w1)
           = [EChat thought_prompt NoFormat (Inr ''I need the ZIP code.''),
              EChat action_prompt
                (Schema ''ToolSelectionSchema''
                   [(''tool'', LiteralField [''Zip Code Lookup'', ''Get the weather''])])
                (Inr pick_zip),
              EChat args_prompt (Schema ''zip_lookup_tool_fnToolSchema'' [(''city'', StrField)])
                (Inr args_city),
              ECallTool zip_lookup_tool args_city (Inr ''03285''),
              ECtxAdd \<lparr>msg_role = ''tool'', msg_content = ''03285''\<rparr>,
              EChat (done_prompt demo_goal) is_done_model (Inr say_not_done)]
       \<and> ctx (session w1)
           = [\<lparr>msg_role = ''user'', msg_content = thought_prompt\<rparr>,
              \<lparr>msg_role = ''assistant'', msg_content = ''I need the ZIP code.''\<rparr>,
              \<lparr>msg_role = ''user'', msg_content = action_prompt\<rparr>,
              \<lparr>msg_role = ''assistant'', msg_content = pick_zip\<rparr>,
              \<lparr>msg_role = ''user'', msg_content = args_prompt\<rparr>,
              \<lparr>msg_role = ''assistant'', msg_content = args_city\<rparr>,
              \<lparr>msg_role = ''tool'', msg_content = ''03285''\<rparr>,
              \<lparr>msg_role = ''user'', msg_content = done_prompt demo_goal\<rparr>,
              \<lparr>msg_role = ''assistant'', msg_content = say_not_done\<rparr>])
   \<and> (\<exists>w (ds :: turn_data list) p.
       react script_lib \<lparr>ctx = [], replies = long_script 1\<rparr> demo_goal None demo_toolbox
         = Some (Inr (Some ''The high is 78.''), w, 2)
       \<and> calls (trace w) =
           [EView (Some []), ERender (Inr p),
            ECtxAdd \<lparr>msg_role = ''system'', msg_content = p\<rparr>,
            ECtxAdd \<lparr>msg_role = ''user'', msg_content = demo_goal\<rparr>]
           @ turn_operations script_lib demo_goal demo_toolbox (hd ds)
           @ turn_operations script_lib demo_goal demo_toolbox (last ds)
           @ [EChat (final_prompt demo_goal) NoFormat (Inr ''The high is 78.'')]
       \<and> length (calls (trace w)) = 17)"
proof (intro conjI)
  note main = react_turn_operations
  let ?w = "\<lparr>session = \<lparr>ctx = [], replies = []\<rparr>, trace = []\<rparr>"
  from main [of script_lib demo_goal demo_toolbox ?w 1, THEN conjunct1]
  obtain ops where a: "spec_turn script_lib demo_goal demo_toolbox (session ?w)
            = (fst (turn script_lib demo_goal demo_toolbox 1 ?w),
               session (snd (turn script_lib demo_goal demo_toolbox 1 ?w)), ops)"
    and b: "calls (trace (snd (turn script_lib demo_goal demo_toolbox 1 ?w)))
        = calls (trace ?w) @ ops"
    by (elim exE conjE)
  from a have f: "fst (turn script_lib demo_goal demo_toolbox 1 ?w) = Inl (External ''no reply'')"
    and o: "ops = [EChat thought_prompt NoFormat (Inl (External ''no reply''))]"
    by (simp_all add: script_failed_turn)
  from f show "fst (turn script_lib demo_goal demo_toolbox 1 ?w) = Inl (External ''no reply'')" .
  from b o show "calls (trace (snd (turn script_lib demo_goal demo_toolbox 1 ?w)))
         = [EChat thought_prompt NoFormat (Inl (External ''no reply''))]"
    by (simp add: calls_def)
next
  note main = react_turn_operations
  let ?w = "\<lparr>session = \<lparr>ctx = [], replies = not_done_turn\<rparr>, trace = []\<rparr>"
  obtain c1 tr1 where t: "turn script_lib demo_goal demo_toolbox 1 ?w
       = (Inr False, \<lparr>session = \<lparr>ctx = c1, replies = []\<rparr>, trace = tr1\<rparr>)"
    using script_not_done_turn [of demo_goal 1 "[]" "[]" "[]"] by auto
  let ?w1 = "\<lparr>session = \<lparr>ctx = c1, replies = []\<rparr>, trace = tr1\<rparr>"
  from main [of script_lib demo_goal demo_toolbox ?w 1 False ?w1,
      THEN conjunct2, THEN conjunct1, rule_format, OF t]
  obtain thought schema action tool args_format args kwargs out reply s1 s2 s3
    where k1: "chat script_lib (session ?w) thought_prompt NoFormat = (Inr thought, s1)"
      and sch: "tool_name_schema demo_toolbox = Inr schema"
      and k2: "chat script_lib s1 action_prompt schema = (Inr action, s2)"
      and sel: "get_tool_from_schema script_lib demo_toolbox action = Inr (Some tool)"
      and fmt: "args_schema script_lib tool = Inr args_format"
      and k3: "chat script_lib s2 args_prompt args_format = (Inr args, s3)"
      and kw: "json_loads script_lib args = Inr (JObj kwargs)"
      and fc: "fn_call (fn tool) kwargs = Inr out"
      and k4: "chat script_lib (ctx_add script_lib s3 \<lparr>msg_role = ''tool'', msg_content = out\<rparr>)
                (done_prompt demo_goal) is_done_model = (Inr reply, session ?w1)"
      and tr: "calls (trace ?w1) = calls (trace ?w)
              @ [EChat thought_prompt NoFormat (Inr thought),
                 EChat action_prompt schema (Inr action),
                 EChat args_prompt args_format (Inr args),
                 ECallTool tool args (Inr out),
                 ECtxAdd \<lparr>msg_role = ''tool'', msg_content = out\<rparr>,
                 EChat (done_prompt demo_goal) is_done_model (Inr reply)]"
    by (elim exE conjE)
  from k1 have v1: "thought = ''I need the ZIP code.''"
    and u1: "s1 = \<lparr>ctx = [\<lparr>msg_role = ''user'', msg_content = thought_prompt\<rparr>,
                          \<lparr>msg_role = ''assistant'', msg_content = ''I need the ZIP code.''\<rparr>],
                   replies = [pick_zip, args_city, say_not_done]\<rparr>"
    by (auto simp: not_done_turn_def script_chat)
  from sch have v2: "schema = Schema ''ToolSelectionSchema''
                   [(''tool'', LiteralField [''Zip Code Lookup'', ''Get the weather''])]"
    by (simp add: demo_tool_name_schema)
  from k2 have v3: "action = pick_zip"
    and u2: "s2 = \<lparr>ctx = [\<lparr>msg_role = ''user'', msg_content = thought_prompt\<rparr>,
                          \<lparr>msg_role = ''assistant'', msg_content = ''I need the ZIP code.''\<rparr>,
                          \<lparr>msg_role = ''user'', msg_content = action_prompt\<rparr>,
                          \<lparr>msg_role = ''assistant'', msg_content = pick_zip\<rparr>],
                   replies = [args_city, say_not_done]\<rparr>"
    unfolding u1 by (auto simp: script_chat)
  from sel have v4: "tool = zip_lookup_tool"
    unfolding v3 by (simp add: script_pick_zip)
  from fmt have v5: "args_format = Schema ''zip_lookup_tool_fnToolSchema'' [(''city'', StrField)]"
    unfolding v4 by (simp add: demo_args_schema script_capitalize)
  from k3 have v6: "args = args_city"
    and u3: "s3 = \<lparr>ctx = [\<lparr>msg_role = ''user'', msg_content = thought_prompt\<rparr>,
                          \<lparr>msg_role = ''assistant'', msg_content = ''I need the ZIP code.''\<rparr>,
                          \<lparr>msg_role = ''user'', msg_content = action_prompt\<rparr>,
                          \<lparr>msg_role = ''assistant'', msg_content = pick_zip\<rparr>,
                          \<lparr>msg_role = ''user'', msg_content = args_prompt\<rparr>,
                          \<lparr>msg_role = ''assistant'', msg_content = args_city\<rparr>],
                   replies = [say_not_done]\<rparr>"
    unfolding u2 by (auto simp: script_chat)
  from kw have v7: "kwargs = [(''city'', JStr ''Thornton'')]"
    unfolding v6 by (simp add: script_json_loads)
  from fc have v8: "out = ''03285''"
    unfolding v4 v7 by (simp add: zip_lookup_tool_def zip_lookup_tool_fn_def)
  from k4 have v9: "reply = say_not_done"
    and u4: "c1 = [\<lparr>msg_role = ''user'', msg_content = thought_prompt\<rparr>,
              \<lparr>msg_role = ''assistant'', msg_content = ''I need the ZIP code.''\<rparr>,
              \<lparr>msg_role = ''user'', msg_content = action_prompt\<rparr>,
              \<lparr>msg_role = ''assistant'', msg_content = pick_zip\<rparr>,
              \<lparr>msg_role = ''user'', msg_content = args_prompt\<rparr>,
              \<lparr>msg_role = ''assistant'', msg_content = args_city\<rparr>,
              \<lparr>msg_role = ''tool'', msg_content = ''03285''\<rparr>,
              \<lparr>msg_role = ''user'', msg_content = done_prompt demo_goal\<rparr>,
              \<lparr>msg_role = ''assistant'', msg_content = say_not_done\<rparr>]"
    unfolding u3 v8 by (auto simp: script_chat script_ctx_add)
  from tr have tr': "calls (trace ?w1)
           = [EChat thought_prompt NoFormat (Inr ''I need the ZIP code.''),
              EChat action_prompt
                (Schema ''ToolSelectionSchema''
                   [(''tool'', LiteralField [''Zip Code Lookup'', ''Get the weather''])])
                (Inr pick_zip),
              EChat args_prompt (Schema ''zip_lookup_tool_fnToolSchema'' [(''city'', StrField)])
                (Inr args_city),
              ECallTool zip_lookup_tool args_city (Inr ''03285''),
              ECtxAdd \<lparr>msg_role = ''tool'', msg_content = ''03285''\<rparr>,
              EChat (done_prompt demo_goal) is_done_model (Inr say_not_done)]"
    unfolding v1 v2 v3 v4 v5 v6 v8 v9 by (simp add: calls_def)
  from t tr' u4
  have body: "turn script_lib demo_goal demo_toolbox 1 ?w = (Inr False, ?w1)
       \<and> calls (trace ?w1)
           = [EChat thought_prompt NoFormat (Inr ''I need the ZIP code.''),
              EChat action_prompt
                (Schema ''ToolSelectionSchema''
                   [(''tool'', LiteralField [''Zip Code Lookup'', ''Get the weather''])])
                (Inr pick_zip),
              EChat args_prompt (Schema ''zip_lookup_tool_fnToolSchema'' [(''city'', StrField)])
                (Inr args_city),
              ECallTool zip_lookup_tool args_city (Inr ''03285''),
              ECtxAdd \<lparr>msg_role = ''tool'', msg_content = ''03285''\<rparr>,
              EChat (done_prompt demo_goal) is_done_model (Inr say_not_done)]
       \<and> ctx (session ?w1)
           = [\<lparr>msg_role = ''user'', msg_content = thought_prompt\<rparr>,
              \<lparr>msg_role = ''assistant'', msg_content = ''I need the ZIP code.''\<rparr>,
              \<lparr>msg_role = ''user'', msg_content = action_prompt\<rparr>,
              \<lparr>msg_role = ''assistant'', msg_content = pick_zip\<rparr>,
              \<lparr>msg_role = ''user'', msg_content = args_prompt\<rparr>,
              \<lparr>msg_role = ''assistant'', msg_content = args_city\<rparr>,
              \<lparr>msg_role = ''tool'', msg_content = ''03285''\<rparr>,
              \<lparr>msg_role = ''user'', msg_content = done_prompt demo_goal\<rparr>,
              \<lparr>msg_role = ''assistant'', msg_content = say_not_done\<rparr>]"
    by simp
  show "\<exists>w1. turn script_lib demo_goal demo_toolbox 1 ?w = (Inr False, w1)
       \<and> calls (trace w1)
           = [EChat thought_prompt NoFormat (Inr ''I need the ZIP code.''),
              EChat action_prompt
                (Schema ''ToolSelectionSchema''
                   [(''tool'', LiteralField [''Zip Code Lookup'', ''Get the weather''])])
                (Inr pick_zip),
              EChat args_prompt (Schema ''zip_lookup_tool_fnToolSchema'' [(''city'', StrField)])
                (Inr args_city),
              ECallTool zip_lookup_tool args_city (Inr ''03285''),
              ECtxAdd \<lparr>msg_role = ''tool'', msg_content = ''03285''\<rparr>,
              EChat (done_prompt demo_goal) is_done_model (Inr say_not_done)]
       \<and> ctx (session w1)
           = [\<lparr>msg_role = ''user'', msg_content = thought_prompt\<rparr>,
              \<lparr>msg_role = ''assistant'', msg_content = ''I need the ZIP code.''\<rparr>,
              \<lparr>msg_role = ''user'', msg_content = action_prompt\<rparr>,
              \<lparr>msg_role = ''assistant'', msg_content = pick_zip\<rparr>,
              \<lparr>msg_role = ''user'', msg_content = args_prompt\<rparr>,
              \<lparr>msg_role = ''assistant'', msg_content = args_city\<rparr>,
              \<lparr>msg_role = ''tool'', msg_content = ''03285''\<rparr>,
              \<lparr>msg_role = ''user'', msg_content = done_prompt demo_goal\<rparr>,
              \<lparr>msg_role = ''assistant'', msg_content = say_not_done\<rparr>]"
    by (rule exI [of _ ?w1]) (rule body)
next
  note main = react_turn_operations
  obtain w where run: "react script_lib \<lparr>ctx = [], replies = long_script 1\<rparr> demo_goal None
      demo_toolbox = Some (Inr (Some ''The high is 78.''), w, 2)"
    using script_react [of 1 demo_goal None] by auto
  from main [of script_lib demo_goal demo_toolbox _ _ _ _
      "\<lparr>ctx = [], replies = long_script 1\<rparr>" None "Some ''The high is 78.''" w 2,
      THEN conjunct2, THEN conjunct2, rule_format, OF run]
  obtain p ds answer where n: "length ds = 2"
    and tr: "calls (trace w) =
             [EView (Some []), ERender (Inr p),
              ECtxAdd \<lparr>msg_role = ''system'', msg_content = p\<rparr>,
              ECtxAdd \<lparr>msg_role = ''user'', msg_content = demo_goal\<rparr>]
             @ concat (map (turn_operations script_lib demo_goal demo_toolbox) ds)
             @ [EChat (final_prompt demo_goal) NoFormat (Inr answer)]"
    by (elim exE conjE)
  from n have two: "ds = [hd ds, last ds]"
    by (rule two_elements)
  have c: "concat (map (turn_operations script_lib demo_goal demo_toolbox) ds)
      = turn_operations script_lib demo_goal demo_toolbox (hd ds)
        @ turn_operations script_lib demo_goal demo_toolbox (last ds)"
    by (subst two) simp
  obtain p' ds' answer' where a: "Some ''The high is 78.'' = Some answer'"
    and tr': "calls (trace w) =
             [EView (Some []), ERender (Inr p'),
              ECtxAdd \<lparr>msg_role = ''system'', msg_content = p'\<rparr>,
              ECtxAdd \<lparr>msg_role = ''user'', msg_content = demo_goal\<rparr>]
             @ concat (map (turn_operations script_lib demo_goal demo_toolbox) ds')
             @ [EChat (final_prompt demo_goal) NoFormat (Inr answer')]"
    using react_shape [OF run] by (elim exE conjE)
  from tr tr' a have ans: "answer = ''The high is 78.''"
    by simp
  from tr c ans
  have tr2: "calls (trace w) =
           [EView (Some []), ERender (Inr p),
            ECtxAdd \<lparr>msg_role = ''system'', msg_content = p\<rparr>,
            ECtxAdd \<lparr>msg_role = ''user'', msg_content = demo_goal\<rparr>]
           @ turn_operations script_lib demo_goal demo_toolbox (hd ds)
           @ turn_operations script_lib demo_goal demo_toolbox (last ds)
           @ [EChat (final_prompt demo_goal) NoFormat (Inr ''The high is 78.'')]"
    by simp
  have len: "length (calls (trace w)) = 17"
    unfolding tr2 by (simp add: turn_operations_def)
  from run tr2 len
  have body: "react script_lib \<lparr>ctx = [], replies = long_script 1\<rparr> demo_goal None demo_toolbox
         = Some (Inr (Some ''The high is 78.''), w, 2)
       \<and> calls (trace w) =
           [EView (Some []), ERender (Inr p),
            ECtxAdd \<lparr>msg_role = ''system'', msg_content = p\<rparr>,
            ECtxAdd \<lparr>msg_role = ''user'', msg_content = demo_goal\<rparr>]
           @ turn_operations script_lib demo_goal demo_toolbox (hd ds)
           @ turn_operations script_lib demo_goal demo_toolbox (last ds)
           @ [EChat (final_prompt demo_goal) NoFormat (Inr ''The high is 78.'')]
       \<and> length (calls (trace w)) = 17"
    by simp
  show "\<exists>w (ds :: turn_data list) p.
       react script_lib \<lparr>ctx = [], replies = long_script 1\<rparr> demo_goal None demo_toolbox
         = Some (Inr (Some ''The high is 78.''), w, 2)
       \<and> calls (trace w) =
           [EView (Some []), ERender (Inr p),
            ECtxAdd \<lparr>msg_role = ''system'', msg_content = p\<rparr>,
            ECtxAdd \<lparr>msg_role = ''user'', msg_content = demo_goal\<rparr>]
           @ turn_operations script_lib demo_goal demo_toolbox (hd ds)
           @ turn_operations script_lib demo_goal demo_toolbox (last ds)
           @ [EChat (final_prompt demo_goal) NoFormat (Inr ''The high is 78.'')]
       \<and> length (calls (trace w)) = 17"
    by (rule exI [of _ w], rule exI [of _ ds], rule exI [of _ p]) (rule body)
qed

subsection \<open>Leaving the loop\<close>

text \<open>
  Claim C1. The loop of \<^verbatim>\<open>react\<close> is left with a value only when a done check is
  answered true. In every run that returns a value, each done check before the last
  was answered false and was followed by another turn, the last was answered true,
  and the value is the content of one final chat, which is the last call of the run
  (never \<^verbatim>\<open>None\<close>: the end of the function after the loop is not reached). A turn
  whose flag is false is followed by the next turn with the turn number one higher;
  a turn whose flag is true is followed by the final chat, whose content is
  returned. No turn limit is enforced: with a model that never says it is done the
  run makes turn after turn and never returns.
\<close>

theorem react_returns_only_when_done:
  "(react L m goal sd tb = Some (Inr r, w, k) \<longrightarrow>
      (\<exists>p ds answer. r = Some answer \<and> ds \<noteq> [] \<and> k = length ds
         \<and> (\<forall>d \<in> set (butlast ds). is_done_of L (td_reply d) = Inr False)
         \<and> is_done_of L (td_reply (last ds)) = Inr True
         \<and> calls (trace w) =
             [EView (Some []), ERender (Inr p),
              ECtxAdd \<lparr>msg_role = ''system'', msg_content = p\<rparr>,
              ECtxAdd \<lparr>msg_role = ''user'', msg_content = goal\<rparr>]
             @ concat (map (turn_operations L goal tb) ds)
             @ [EChat (final_prompt goal) NoFormat (Inr answer)]))
   \<and> (turn L goal tb (k0 + 1) w0 = (Inr False, w1) \<longrightarrow>
        react_loop L goal tb False k0 w0
          = react_loop L goal tb False (k0 + 1) (snd (io_print ''Not done.'' w1)))
   \<and> (turn L goal tb (k0 + 1) w0 = (Inr True, w1) \<and> final_answer L goal w1 = (Inr final, w2) \<longrightarrow>
        react_loop L goal tb False k0 w0 = Some (Inr (Some final), w2, k0 + 1))
   \<and> react stubborn_lib () goal sd demo_toolbox = None"
proof (intro conjI impI)
  assume "react L m goal sd tb = Some (Inr r, w, k)"
  from react_shape [OF this]
  obtain p ds answer where "r = Some answer" "ds \<noteq> []" "k = length ds"
    "\<forall>d \<in> set (butlast ds). is_done_of L (td_reply d) = Inr False"
    "is_done_of L (td_reply (last ds)) = Inr True"
    "calls (trace w) =
             [EView (Some []), ERender (Inr p),
              ECtxAdd \<lparr>msg_role = ''system'', msg_content = p\<rparr>,
              ECtxAdd \<lparr>msg_role = ''user'', msg_content = goal\<rparr>]
             @ concat (map (turn_operations L goal tb) ds)
             @ [EChat (final_prompt goal) NoFormat (Inr answer)]"
    by (elim exE conjE)
  then show "\<exists>p ds answer. r = Some answer \<and> ds \<noteq> [] \<and> k = length ds
         \<and> (\<forall>d \<in> set (butlast ds). is_done_of L (td_reply d) = Inr False)
         \<and> is_done_of L (td_reply (last ds)) = Inr True
         \<and> calls (trace w) =
             [EView (Some []), ERender (Inr p),
              ECtxAdd \<lparr>msg_role = ''system'', msg_content = p\<rparr>,
              ECtxAdd \<lparr>msg_role = ''user'', msg_content = goal\<rparr>]
             @ concat (map (turn_operations L goal tb) ds)
             @ [EChat (final_prompt goal) NoFormat (Inr answer)]"
    by (intro exI [of _ p] exI [of _ ds] exI [of _ answer] conjI)
next
  assume "turn L goal tb (k0 + 1) w0 = (Inr False, w1)"
  then show "react_loop L goal tb False k0 w0
          = react_loop L goal tb False (k0 + 1) (snd (io_print ''Not done.'' w1))"
    by (subst react_loop.simps) simp
next
  assume "turn L goal tb (k0 + 1) w0 = (Inr True, w1) \<and> final_answer L goal w1 = (Inr final, w2)"
  then show "react_loop L goal tb False k0 w0 = Some (Inr (Some final), w2, k0 + 1)"
    by (subst react_loop.simps) simp
next
  show "react stubborn_lib () goal sd demo_toolbox = None"
    by (rule stubborn_react)
qed

theorem react_returns_only_when_done_witness:
  "\<exists>w (ds :: turn_data list).
       react script_lib \<lparr>ctx = [], replies = long_script 1\<rparr> demo_goal None demo_toolbox
             = Some (Inr (Some ''The high is 78.''), w, 2)
         \<and> length ds = 2
         \<and> is_done_of script_lib (td_reply (hd ds)) = Inr False
         \<and> is_done_of script_lib (td_reply (last ds)) = Inr True
         \<and> last (calls (trace w)) = EChat (final_prompt demo_goal) NoFormat (Inr ''The high is 78.'')"
proof -
  obtain w where run: "react script_lib \<lparr>ctx = [], replies = long_script 1\<rparr> demo_goal None
      demo_toolbox = Some (Inr (Some ''The high is 78.''), w, 2)"
    using script_react [of 1 demo_goal None] by auto
  from react_returns_only_when_done
    [of script_lib "\<lparr>ctx = [], replies = long_script 1\<rparr>" demo_goal None demo_toolbox
      "Some ''The high is 78.''" w 2, THEN conjunct1, rule_format, OF run]
  obtain p ds answer where a: "Some ''The high is 78.'' = Some answer" and n: "2 = length ds"
    and nd: "\<forall>d \<in> set (butlast ds). is_done_of script_lib (td_reply d) = Inr False"
    and la: "is_done_of script_lib (td_reply (last ds)) = Inr True"
    and tr: "calls (trace w) =
             [EView (Some []), ERender (Inr p),
              ECtxAdd \<lparr>msg_role = ''system'', msg_content = p\<rparr>,
              ECtxAdd \<lparr>msg_role = ''user'', msg_content = demo_goal\<rparr>]
             @ concat (map (turn_operations script_lib demo_goal demo_toolbox) ds)
             @ [EChat (final_prompt demo_goal) NoFormat (Inr answer)]"
    by (elim exE conjE)
  from n have two: "ds = [hd ds, last ds]"
    by (intro two_elements) simp
  then have "butlast ds = [hd ds]"
    by (metis butlast.simps(2) butlast_snoc append_Nil append_Cons list.distinct(1))
  with nd have fi: "is_done_of script_lib (td_reply (hd ds)) = Inr False"
    by simp
  from tr a have "last (calls (trace w))
      = EChat (final_prompt demo_goal) NoFormat (Inr ''The high is 78.'')"
    by simp
  with run n fi la
  have body: "react script_lib \<lparr>ctx = [], replies = long_script 1\<rparr> demo_goal None demo_toolbox
             = Some (Inr (Some ''The high is 78.''), w, 2)
         \<and> length ds = 2
         \<and> is_done_of script_lib (td_reply (hd ds)) = Inr False
         \<and> is_done_of script_lib (td_reply (last ds)) = Inr True
         \<and> last (calls (trace w)) = EChat (final_prompt demo_goal) NoFormat (Inr ''The high is 78.'')"
    by simp
  show ?thesis
    by (rule exI [of _ w], rule exI [of _ ds]) (rule body)
qed

subsection \<open>No bound on the number of turns\<close>

text \<open>
  Claim C2 as the specification states it: there is a fixed number \<open>N\<close> such that
  for every sequence of model responses the loop makes at most \<open>N\<close> turns before
  returning. It fails: whatever \<open>N\<close> is, the scripted model that answers the done
  check with false \<open>N\<close> times and then with true makes \<^verbatim>\<open>react\<close> return after
  \<open>N + 1\<close> turns.
\<close>

theorem react_has_no_turn_bound:
  "\<not> (\<exists>N. \<forall>rs res w k.
         react script_lib \<lparr>ctx = [], replies = rs\<rparr> demo_goal None demo_toolbox = Some (res, w, k)
         \<longrightarrow> k \<le> N)"
proof
  assume "\<exists>N. \<forall>rs res w k.
         react script_lib \<lparr>ctx = [], replies = rs\<rparr> demo_goal None demo_toolbox = Some (res, w, k)
         \<longrightarrow> k \<le> N"
  then obtain N where b: "\<forall>rs res w k.
         react script_lib \<lparr>ctx = [], replies = rs\<rparr> demo_goal None demo_toolbox = Some (res, w, k)
         \<longrightarrow> k \<le> N"
    by (elim exE)
  obtain w where "react script_lib \<lparr>ctx = [], replies = long_script N\<rparr> demo_goal None
      demo_toolbox = Some (Inr (Some ''The high is 78.''), w, N + 1)"
    using script_react [of N demo_goal None] by (elim exE)
  from b [rule_format, OF this] show False by simp
qed

text \<open>
  Claim C2, amended. The loop has no fixed iteration bound: the only exit is the done
  flag. For every \<open>n\<close> there is a sequence of model responses, with \<open>n\<close> done checks
  answered false followed by one answered true, on which \<^verbatim>\<open>react\<close> returns its
  final answer after exactly \<open>n + 1\<close> turns.
\<close>

theorem react_turns_unbounded:
  "\<exists>w. react script_lib \<lparr>ctx = [], replies = long_script n\<rparr> goal sd demo_toolbox
          = Some (Inr (Some ''The high is 78.''), w, n + 1)
       \<and> count_list (long_script n) say_not_done = n
       \<and> count_list (long_script n) say_done = 1"
proof -
  have a: "count_list not_done_turn say_done = 0"
    by (simp add: not_done_turn_def say_not_done_def pick_zip_def args_city_def say_done_def)
  have b: "count_list (done_turn @ [''The high is 78.'']) say_done = 1"
    by (simp add: done_turn_def pick_weather_def args_zip_def say_done_def)
  have c: "count_list (concat (replicate n not_done_turn)) say_done = 0"
    by (induction n) (simp_all add: a)
  from b c have d: "count_list (long_script n) say_done = 1"
    by (simp add: long_script_def)
  from script_react [of n goal sd] count_long_script [of n] d show ?thesis
    by auto
qed

section \<open>Properties of demo.py\<close>

lemma write_email_cases:
  "write_email L m names notes =
     (case instruct_sampling L m
             ''Write an email to {{name}} using the notes following: {{notes}}.''
             (requirements L) 5 [(''name'', names), (''notes'', notes)] of
        Inl e \<Rightarrow> (Inl e, [])
      | Inr c \<Rightarrow> if success c then (Inr (Some (str_thunk L (result c))), [])
                 else (Inl AttributeError, [fallback_message]))"
  by (simp add: write_email_def sampling_results_def split: sum.splits)

text \<open>
  Claim C4 says that \<^verbatim>\<open>write_email\<close> returns \<^verbatim>\<open>str\<close> of the result when the
  sampling result's success flag is true, and otherwise prints the fallback message
  and returns the value of the first entry of \<^verbatim>\<open>sampling_results\<close>. The first half
  holds. The second does not: with the flag false the function prints the message and
  then reads \<^verbatim>\<open>email_candidate.sampling_results\<close>, an attribute that the library's
  \<^verbatim>\<open>SamplingResult\<close> does not have (its candidates are in \<^verbatim>\<open>sample_generations\<close>),
  so the call ends with \<open>AttributeError\<close>. No call of \<^verbatim>\<open>write_email\<close> prints the
  fallback message and returns a value.
\<close>

theorem write_email_failure_raises:
  "(instruct_sampling L m
        ''Write an email to {{name}} using the notes following: {{notes}}.''
        (requirements L) 5 [(''name'', names), (''notes'', notes)] = Inr email_candidate
      \<longrightarrow> write_email L m names notes
            = (if success email_candidate
               then (Inr (Some (str_thunk L (result email_candidate))), [])
               else (Inl AttributeError, [fallback_message])))
   \<and> (\<forall>v. write_email L m names notes \<noteq> (Inr v, [fallback_message]))"
  by (simp add: write_email_cases split: sum.splits)

theorem write_email_failure_raises_witness:
  "write_email email_lib 1 ''Arush''
       ''Arush has been a great team player, always willing to help others and contribute to group projects.''
     = (Inl AttributeError, [''Expect sub-par output due to failure to meet requirements.''])
   \<and> write_email email_lib 0 ''Arush''
       ''Arush has been a great team player, always willing to help others and contribute to group projects.''
     = (Inr (Some ''dear arush''), [])"
proof -
  note main = write_email_failure_raises
  let ?notes = "''Arush has been a great team player, always willing to help others and contribute to group projects.''"
  have failed: "instruct_sampling email_lib 1
        ''Write an email to {{name}} using the notes following: {{notes}}.''
        (requirements email_lib) 5 [(''name'', ''Arush''), (''notes'', ?notes)]
      = Inr \<lparr> success = False, result = ''Regards'',
              sample_generations = [''Hi Arush'', ''Regards''] \<rparr>"
    by (simp add: email_lib_def)
  have passed: "instruct_sampling email_lib 0
        ''Write an email to {{name}} using the notes following: {{notes}}.''
        (requirements email_lib) 5 [(''name'', ''Arush''), (''notes'', ?notes)]
      = Inr \<lparr> success = True, result = ''dear arush'',
              sample_generations = [''dear arush''] \<rparr>"
    by (simp add: email_lib_def)
  from main [of email_lib 1 "''Arush''" ?notes, THEN conjunct1, rule_format, OF failed]
  have a: "write_email email_lib 1 ''Arush'' ?notes
      = (Inl AttributeError, [''Expect sub-par output due to failure to meet requirements.''])"
    by (simp add: fallback_message_def)
  from main [of email_lib 0 "''Arush''" ?notes, THEN conjunct1, rule_format, OF passed]
  have b: "write_email email_lib 0 ''Arush'' ?notes = (Inr (Some ''dear arush''), [])"
    by (simp add: email_lib_def)
  from a b show ?thesis by simp
qed

end
